theory Spec2Isabelle
  imports Complex_Main "HOL-Library.Sublist" "HOL-Library.Char_ord" "HOL-Library.List_Lexorder"
begin

section \<open>The Heart Disease dataset loader of FLamby\<close>

text \<open>
  A shallow embedding of \<^verbatim>\<open>flamby/datasets/fed_heart_disease/dataset.py\<close>: the class
  \<^verbatim>\<open>HeartDiseaseRaw\<close>, which reads the per-center files, cleans and merges them, draws
  the train/test split and binarises the label, and its subclass
  \<^verbatim>\<open>FedHeartDisease\<close>, which keeps the rows of one center (or of all four) and of one
  split.

  What stands outside the embedding is the code of the libraries: the text of a file is
  taken as \<^verbatim>\<open>pd.read_csv\<close> tokenises it (a table of fields, a number with its text and
  its value), numpy's generator is a pair of functions (the state that
  \<^verbatim>\<open>np.random.seed\<close> installs, and one draw of \<^verbatim>\<open>np.random.rand\<close>), and a tensor is
  its dtype and its elements, as exact rationals: the rounding of a cast is not modelled,
  so the elements of a feature tensor are the numbers before \<^verbatim>\<open>astype(np.float32)\<close>.
\<close>

subsection \<open>Data\<close>

text \<open>Every \<^verbatim>\<open>raise\<close> and failing \<^verbatim>\<open>assert\<close> of the source, and every error of a library
  call that the input can provoke, is a value.\<close>

datatype error =
  AssertionError | IndexError | KeyError | EmptyDataError | ValueError | TypeError

text \<open>A field of a data file: an empty field (which \<^verbatim>\<open>read_csv\<close> reads as NaN), a
  number, with the text that writes it and its value, or another text, such as
  \<^verbatim>\<open>?\<close>.\<close>

datatype cell = Empty | Number string rat | Text string

text \<open>
  A value in a frame: NaN, a number, or a string. A column in which \<^verbatim>\<open>read_csv\<close> finds
  a text that is no number has the dtype \<^verbatim>\<open>object\<close> and holds strings, the numbers of
  that column too; a string carries the number that \<^verbatim>\<open>float\<close> reads from it, if there is
  one.
\<close>

datatype val = NaNv | Numv rat | Strv string "rat option"

text \<open>A \<^verbatim>\<open>DataFrame\<close>: the labels of its columns, those of them of dtype
  \<^verbatim>\<open>object\<close>, and its rows, in index order.\<close>

record frame =
  columns :: "nat list"
  objects :: "nat list"
  rows :: "val list list"

text \<open>A \<^verbatim>\<open>Series\<close>, or a frame of one column: whether its dtype is \<^verbatim>\<open>object\<close>, and its
  values.\<close>

record series =
  s_object :: bool
  s_values :: "val list"

datatype dtype =
  Float16 | BFloat16 | Float32 | Float64 | UInt8 | Int8 | Int16 | Int32 | Int64 | Bool

text \<open>A tensor: an element is a number, or \<open>None\<close> for NaN.\<close>

record tensor =
  dtype :: dtype
  elems :: "rat option list"

text \<open>One file that \<^verbatim>\<open>data_dir.glob("*.data")\<close> yields: its path and its fields.\<close>

record data_file =
  path :: string
  table :: "cell list list"

text \<open>
  The attributes of a \<^verbatim>\<open>HeartDiseaseRaw\<close> after construction. \<open>labels\<close> is the
  two-dimensional label tensor, as the list of its rows (what indexing and iterating it
  yield); \<^verbatim>\<open>FedHeartDisease\<close> replaces it by a list of exactly these rows.
\<close>

record dataset =
  X_dtype :: dtype
  y_dtype :: dtype
  debug :: bool
  features :: "tensor list"
  labels :: "tensor list"
  centers :: "int list"
  sets :: "string list"

record fed_dataset = dataset +
  chosen_centers :: "int list"
  chosen_sets :: "string list"

subsection \<open>Constants of the loader\<close>

definition centers_number :: "string \<rightharpoonup> int" where
  "centers_number =
     map_of [(''cleveland'', 0), (''hungarian'', 1), (''switzerland'', 2), (''va'', 3)]"

definition train_fraction :: rat where
  "train_fraction = 66 / 100"

subsection \<open>Python and library operations\<close>

text \<open>\<^verbatim>\<open>xs[i]\<close> of a list or of a tensor: an index from \<open>- len\<close> up to \<open>-1\<close> reads
  from the end, and an index outside \<open>- len \<dots> len - 1\<close> is an \<^verbatim>\<open>IndexError\<close>.\<close>

definition py_index :: "'a list \<Rightarrow> int \<Rightarrow> error + 'a" where
  "py_index xs i =
     (if 0 \<le> i \<and> i < int (length xs) then Inr (xs ! nat i)
      else if - int (length xs) \<le> i \<and> i < 0 then Inr (xs ! nat (int (length xs) + i))
      else Inl IndexError)"

text \<open>A list comprehension whose element expression may raise.\<close>

fun comprehend :: "('a \<Rightarrow> error + 'b) \<Rightarrow> 'a list \<Rightarrow> error + 'b list" where
  "comprehend f [] = Inr []"
| "comprehend f (x # xs) =
     (case f x of
        Inl e \<Rightarrow> Inl e
      | Inr y \<Rightarrow> (case comprehend f xs of Inl e \<Rightarrow> Inl e | Inr ys \<Rightarrow> Inr (y # ys)))"

text \<open>\<^verbatim>\<open>s.split(".")\<close>: the pieces between the separators, empty ones included.\<close>

fun split_at :: "char \<Rightarrow> string \<Rightarrow> string \<Rightarrow> string list" where
  "split_at sep cur [] = [rev cur]"
| "split_at sep cur (c # cs) =
     (if c = sep then rev cur # split_at sep [] cs else split_at sep (c # cur) cs)"

definition split_str :: "char \<Rightarrow> string \<Rightarrow> string list" where
  "split_str sep s = split_at sep [] s"

text \<open>\<^verbatim>\<open>os.path.basename\<close>: what follows the last slash.\<close>

definition basename :: "string \<Rightarrow> string" where
  "basename p = last (split_str CHR ''/'' p)"

text \<open>
  \<^verbatim>\<open>pd.read_csv(file, header=None)\<close>: columns numbered from 0, as many as the first
  line has fields; a file with no line is an error. A column that holds a text that is
  no number is of dtype \<^verbatim>\<open>object\<close>, and every field of it is a string; the fields of the
  other columns are numbers.
\<close>

definition is_text :: "cell \<Rightarrow> bool" where
  "is_text c = (case c of Text s \<Rightarrow> True | _ \<Rightarrow> False)"

definition text_column :: "cell list list \<Rightarrow> nat \<Rightarrow> bool" where
  "text_column tbl c = list_ex (\<lambda>r. c < length r \<and> is_text (r ! c)) tbl"

fun read_cell :: "bool \<Rightarrow> cell \<Rightarrow> val" where
  "read_cell obj Empty = NaNv"
| "read_cell obj (Number s v) = (if obj then Strv s (Some v) else Numv v)"
| "read_cell obj (Text s) = Strv s None"

definition read_row :: "cell list list \<Rightarrow> nat \<Rightarrow> cell list \<Rightarrow> val list" where
  "read_row tbl n r = map (\<lambda>(c, x). read_cell (text_column tbl c) x) (zip [0..<n] r)"

definition read_csv :: "cell list list \<Rightarrow> error + frame" where
  "read_csv tbl =
     (case tbl of
        [] \<Rightarrow> Inl EmptyDataError
      | r # _ \<Rightarrow>
          Inr \<lparr>columns = [0..<length r],
               objects = filter (text_column tbl) [0..<length r],
               rows = map (read_row tbl (length r)) tbl\<rparr>)"

text \<open>\<^verbatim>\<open>df.replace("?", np.NaN)\<close>: the string \<^verbatim>\<open>?\<close> becomes NaN; no dtype changes.\<close>

definition replace_val :: "val \<Rightarrow> val" where
  "replace_val v = (case v of Strv s n \<Rightarrow> if s = ''?'' then NaNv else v | _ \<Rightarrow> v)"

definition replace_question :: "frame \<Rightarrow> frame" where
  "replace_question df =
     \<lparr>columns = columns df, objects = objects df, rows = map (map replace_val) (rows df)\<rparr>"

text \<open>\<^verbatim>\<open>df.drop(ls, axis=1)\<close>: a label that is no column is a \<^verbatim>\<open>KeyError\<close>.\<close>

definition drop_row :: "nat list \<Rightarrow> nat list \<Rightarrow> 'a list \<Rightarrow> 'a list" where
  "drop_row ls cols r = map snd (filter (\<lambda>(c, v). c \<notin> set ls) (zip cols r))"

definition drop_columns :: "nat list \<Rightarrow> frame \<Rightarrow> error + frame" where
  "drop_columns ls df =
     (if \<not> set ls \<subseteq> set (columns df) then Inl KeyError
      else Inr \<lparr>columns = filter (\<lambda>c. c \<notin> set ls) (columns df),
                objects = filter (\<lambda>c. c \<notin> set ls) (objects df),
                rows = map (drop_row ls (columns df)) (rows df)\<rparr>)"

text \<open>\<^verbatim>\<open>df.dropna(axis=0)\<close>: the rows without NaN.\<close>

definition dropna :: "frame \<Rightarrow> frame" where
  "dropna df =
     \<lparr>columns = columns df, objects = objects df,
      rows = filter (\<lambda>r. NaNv \<notin> set r) (rows df)\<rparr>"

text \<open>\<^verbatim>\<open>df.iloc[:, :-1]\<close> and \<^verbatim>\<open>df.iloc[:, -1]\<close>; the latter needs a column, and is a
  series of the dtype of that column.\<close>

definition iloc_but_last :: "frame \<Rightarrow> frame" where
  "iloc_but_last df =
     \<lparr>columns = butlast (columns df),
      objects = filter (\<lambda>c. c \<in> set (butlast (columns df))) (objects df),
      rows = map butlast (rows df)\<rparr>"

definition iloc_last :: "frame \<Rightarrow> error + series" where
  "iloc_last df =
     (if columns df = [] then Inl IndexError
      else Inr \<lparr>s_object = (last (columns df) \<in> set (objects df)),
                s_values = map last (rows df)\<rparr>)"

text \<open>
  \<^verbatim>\<open>pd.concat((a, b), ignore_index=True)\<close> of two frames: the columns of \<open>a\<close>, then
  those of \<open>b\<close> that \<open>a\<close> has not; a row has NaN in a column its frame has not. A
  column is of dtype \<^verbatim>\<open>object\<close> when it is so in one of the frames. The labels are
  concatenated as a frame of one column.
\<close>

definition reindex_row :: "nat list \<Rightarrow> nat list \<Rightarrow> val list \<Rightarrow> val list" where
  "reindex_row new old r =
     map (\<lambda>c. case map_of (zip old r) c of None \<Rightarrow> NaNv | Some v \<Rightarrow> v) new"

definition pd_concat :: "frame \<Rightarrow> frame \<Rightarrow> frame" where
  "pd_concat a b =
     (let cols = columns a @ filter (\<lambda>c. c \<notin> set (columns a)) (columns b)
      in \<lparr>columns = cols,
          objects = objects a @ filter (\<lambda>c. c \<notin> set (objects a)) (objects b),
          rows = map (reindex_row cols (columns a)) (rows a)
               @ map (reindex_row cols (columns b)) (rows b)\<rparr>)"

definition concat_series :: "series \<Rightarrow> series \<Rightarrow> series" where
  "concat_series a b =
     \<lparr>s_object = (s_object a \<or> s_object b), s_values = s_values a @ s_values b\<rparr>"

text \<open>
  \<^verbatim>\<open>pd.get_dummies(df, columns=cs, drop_first=True)\<close>, then the values of each row:
  the other columns, then for each column of \<open>cs\<close> one indicator for each of its levels
  but the first. The levels of a column are the distinct values it holds: the numbers in
  increasing order, then the strings in the order of strings; a string is no number, also
  when it writes one.
\<close>

datatype level = NumLevel rat | TextLevel string

fun level_of :: "val \<Rightarrow> level option" where
  "level_of NaNv = None"
| "level_of (Numv v) = Some (NumLevel v)"
| "level_of (Strv s n) = Some (TextLevel s)"

fun number_level :: "val \<Rightarrow> rat option" where
  "number_level (Numv v) = Some v"
| "number_level v = None"

fun text_level :: "val \<Rightarrow> string option" where
  "text_level (Strv s n) = Some s"
| "text_level v = None"

definition column_of :: "frame \<Rightarrow> nat \<Rightarrow> val list" where
  "column_of df c =
     map (\<lambda>r. case map_of (zip (columns df) r) c of None \<Rightarrow> NaNv | Some v \<Rightarrow> v) (rows df)"

definition levels :: "val list \<Rightarrow> level list" where
  "levels vs =
     map NumLevel (sort (remdups (List.map_filter number_level vs)))
     @ map TextLevel (sort (remdups (List.map_filter text_level vs)))"

definition indicators :: "level list \<Rightarrow> val \<Rightarrow> val list" where
  "indicators lvs v = map (\<lambda>l. if level_of v = Some l then Numv 1 else Numv 0) lvs"

definition get_dummies :: "nat list \<Rightarrow> frame \<Rightarrow> error + val list list" where
  "get_dummies cs df =
     (if \<not> set cs \<subseteq> set (columns df) then Inl KeyError
      else Inr (map (\<lambda>r. drop_row cs (columns df) r
                  @ concat (map (\<lambda>c. indicators (tl (levels (column_of df c)))
                       (case map_of (zip (columns df) r) c of None \<Rightarrow> NaNv | Some v \<Rightarrow> v)) cs))
                 (rows df)))"

text \<open>
  \<^verbatim>\<open>torch.from_numpy(row.values.astype(np.float32)).to(d)\<close>: \<^verbatim>\<open>astype\<close> reads the
  number of a string, and a string that writes no number is a \<^verbatim>\<open>ValueError\<close>.
\<close>

fun to_float :: "val \<Rightarrow> error + rat option" where
  "to_float NaNv = Inr None"
| "to_float (Numv v) = Inr (Some v)"
| "to_float (Strv s (Some v)) = Inr (Some v)"
| "to_float (Strv s None) = Inl ValueError"

definition to_tensor :: "dtype \<Rightarrow> rat option list \<Rightarrow> tensor" where
  "to_tensor d vs = \<lparr>dtype = d, elems = vs\<rparr>"

definition feature_tensor :: "dtype \<Rightarrow> val list \<Rightarrow> error + tensor" where
  "feature_tensor d r =
     (case comprehend to_float r of Inl e \<Rightarrow> Inl e | Inr xs \<Rightarrow> Inr (to_tensor d xs))"

text \<open>\<^verbatim>\<open>labels.where(labels == 0, 1, inplace=True)\<close>: what is the number 0 stays, the
  rest becomes 1; the dtype of the column stays.\<close>

definition binarize :: "val \<Rightarrow> val" where
  "binarize v = (if v = Numv 0 then v else Numv 1)"

definition where_zero :: "series \<Rightarrow> series" where
  "where_zero s = \<lparr>s_object = s_object s, s_values = map binarize (s_values s)\<rparr>"

text \<open>
  \<^verbatim>\<open>torch.from_numpy(labels.values).to(d)\<close>: an array of dtype \<^verbatim>\<open>object\<close> is a
  \<^verbatim>\<open>TypeError\<close>; otherwise one tensor of one element for each row.
\<close>

fun number_of :: "val \<Rightarrow> rat option" where
  "number_of NaNv = None"
| "number_of (Numv v) = Some v"
| "number_of (Strv s n) = n"

definition label_tensors :: "dtype \<Rightarrow> series \<Rightarrow> error + tensor list" where
  "label_tensors d s =
     (if s_object s then Inl TypeError
      else Inr (map (\<lambda>v. to_tensor d [number_of v]) (s_values s)))"

subsection \<open>\<^verbatim>\<open>HeartDiseaseRaw.__init__\<close>\<close>

text \<open>
  The inner loop: one \<^verbatim>\<open>np.random.rand()\<close> for each row of the file, appending
  \<^verbatim>\<open>"train"\<close> or \<^verbatim>\<open>"test"\<close> to \<^verbatim>\<open>self.sets\<close>. The state of the global generator is
  threaded through.
\<close>

fun assign_sets :: "('g \<Rightarrow> rat \<times> 'g) \<Rightarrow> nat \<Rightarrow> string list \<times> 'g \<Rightarrow> string list \<times> 'g" where
  "assign_sets rand 0 (ss, g) = (ss, g)"
| "assign_sets rand (Suc n) (ss, g) =
     (case rand g of (u, g') \<Rightarrow>
        assign_sets rand n
          (if u < train_fraction then ss @ [''train''] else ss @ [''test''], g'))"

text \<open>What the loop over the files accumulates.\<close>

record 'g loading =
  l_features :: frame
  l_labels :: series
  l_centers :: "int list"
  l_sets :: "string list"
  l_gen :: 'g

text \<open>The body of the loop over the files, for one file.\<close>

definition load_file :: "('g \<Rightarrow> rat \<times> 'g) \<Rightarrow> 'g loading \<Rightarrow> data_file \<Rightarrow> error + 'g loading" where
  "load_file rand st f =
     (case py_index (split_str CHR ''.'' (basename (path f))) 1 of
        Inl e \<Rightarrow> Inl e
      | Inr center_name \<Rightarrow>
     (case read_csv (table f) of
        Inl e \<Rightarrow> Inl e
      | Inr df0 \<Rightarrow>
     (case drop_columns [10, 11, 12] (replace_question df0) of
        Inl e \<Rightarrow> Inl e
      | Inr df1 \<Rightarrow>
     (let df = dropna df1; center_X = iloc_but_last df in
      case iloc_last df of
        Inl e \<Rightarrow> Inl e
      | Inr center_y \<Rightarrow>
     (case centers_number center_name of
        None \<Rightarrow> Inl KeyError
      | Some c \<Rightarrow>
     (let nb = length (rows center_X) in
      case assign_sets rand nb (l_sets st, l_gen st) of (ss, g') \<Rightarrow>
        Inr \<lparr>l_features = pd_concat (l_features st) center_X,
             l_labels = concat_series (l_labels st) center_y,
             l_centers = l_centers st @ replicate (length (rows center_X)) c,
             l_sets = ss,
             l_gen = g'\<rparr>))))))"

fun load_files :: "('g \<Rightarrow> rat \<times> 'g) \<Rightarrow> 'g loading \<Rightarrow> data_file list \<Rightarrow> error + 'g loading" where
  "load_files rand st [] = Inr st"
| "load_files rand st (f # fs) =
     (case load_file rand st f of Inl e \<Rightarrow> Inl e | Inr st' \<Rightarrow> load_files rand st' fs)"

text \<open>
  The state before the loop: empty frames and lists, and the generator as
  \<^verbatim>\<open>np.random.seed(8)\<close> leaves it. \<open>seed\<close> and \<open>rand\<close> are numpy's
  \<^verbatim>\<open>np.random.seed\<close> (the state it installs) and \<^verbatim>\<open>np.random.rand\<close> (one draw).
\<close>

definition load_start :: "(nat \<Rightarrow> 'g) \<Rightarrow> 'g loading" where
  "load_start seed =
     \<lparr>l_features = \<lparr>columns = [], objects = [], rows = []\<rparr>,
      l_labels = \<lparr>s_object = False, s_values = []\<rparr>, l_centers = [],
      l_sets = [], l_gen = seed 8\<rparr>"

text \<open>
  The constructor. \<open>g0\<close> is the state of the global generator when the constructor is
  called, which the seeding overwrites, and \<open>files\<close> are the files of the configured
  directory in the order in which \<^verbatim>\<open>glob\<close> yields them. After the loop come the
  encoding of columns 2 and 6, the feature tensors, and the label tensors.
\<close>

definition HeartDiseaseRaw_init ::
  "(nat \<Rightarrow> 'g) \<Rightarrow> ('g \<Rightarrow> rat \<times> 'g) \<Rightarrow> 'g \<Rightarrow> dtype \<Rightarrow> dtype \<Rightarrow> bool \<Rightarrow> data_file list
     \<Rightarrow> error + dataset" where
  "HeartDiseaseRaw_init seed rand g0 X y dbg files =
     (case load_files rand (load_start seed) files of
        Inl e \<Rightarrow> Inl e
      | Inr st \<Rightarrow>
     (case get_dummies [2, 6] (l_features st) of
        Inl e \<Rightarrow> Inl e
      | Inr enc \<Rightarrow>
     (case comprehend (feature_tensor X) enc of
        Inl e \<Rightarrow> Inl e
      | Inr fs \<Rightarrow>
     (case label_tensors X (where_zero (l_labels st)) of
        Inl e \<Rightarrow> Inl e
      | Inr ls \<Rightarrow>
        Inr \<lparr>X_dtype = X, y_dtype = y, debug = dbg,
             features = fs,
             labels = ls,
             centers = l_centers st,
             sets = l_sets st\<rparr>))))"

subsection \<open>\<^verbatim>\<open>__len__\<close> and \<^verbatim>\<open>__getitem__\<close>\<close>

definition len :: "'z dataset_scheme \<Rightarrow> nat" where
  "len self = length (labels self)"

definition getitem :: "'z dataset_scheme \<Rightarrow> int \<Rightarrow> error + tensor \<times> tensor" where
  "getitem self idx =
     (if \<not> idx < int (length (features self)) then Inl AssertionError
      else case py_index (features self) idx of
             Inl e \<Rightarrow> Inl e
           | Inr X \<Rightarrow>
          (case py_index (labels self) idx of
             Inl e \<Rightarrow> Inl e
           | Inr y \<Rightarrow> Inr (X, y)))"

subsection \<open>\<^verbatim>\<open>FedHeartDisease.__init__\<close>\<close>

text \<open>One entry of \<^verbatim>\<open>to_select\<close>; \<^verbatim>\<open>and\<close> reads the center only of a row of a
  chosen set.\<close>

definition select_entry ::
  "string list \<Rightarrow> int list \<Rightarrow> string list \<Rightarrow> int list \<Rightarrow> nat \<Rightarrow> error + bool" where
  "select_entry ch_sets ch_centers ss cs idx =
     (case py_index ss (int idx) of
        Inl e \<Rightarrow> Inl e
      | Inr s \<Rightarrow>
          if s \<in> set ch_sets
          then (case py_index cs (int idx) of
                  Inl e \<Rightarrow> Inl e
                | Inr c \<Rightarrow> Inr (c \<in> set ch_centers))
          else Inr False)"

text \<open>\<^verbatim>\<open>[fp for idx, fp in enumerate(xs) if to_select[idx]]\<close>.\<close>

fun select_by :: "bool list \<Rightarrow> 'a list \<Rightarrow> error + 'a list" where
  "select_by m [] = Inr []"
| "select_by [] (x # xs) = Inl IndexError"
| "select_by (b # m) (x # xs) =
     (case select_by m xs of
        Inl e \<Rightarrow> Inl e
      | Inr ys \<Rightarrow> Inr (if b then x # ys else ys))"

text \<open>The part of the constructor that follows \<^verbatim>\<open>super().__init__\<close>.\<close>

definition fed_filter :: "int \<Rightarrow> bool \<Rightarrow> bool \<Rightarrow> dataset \<Rightarrow> error + fed_dataset" where
  "fed_filter center train pooled self =
     (if center \<notin> set [0, 1, 2, 3] then Inl AssertionError
      else
        let ch_centers = (if pooled then [0, 1, 2, 3] else [center]);
            ch_sets = (if train then [''train''] else [''test''])
        in
        case comprehend (select_entry ch_sets ch_centers (sets self) (centers self))
               [0..<length (features self)] of
          Inl e \<Rightarrow> Inl e
        | Inr to_select \<Rightarrow>
       (case select_by to_select (features self) of
          Inl e \<Rightarrow> Inl e
        | Inr fs \<Rightarrow>
       (case select_by to_select (sets self) of
          Inl e \<Rightarrow> Inl e
        | Inr ss \<Rightarrow>
       (case select_by to_select (labels self) of
          Inl e \<Rightarrow> Inl e
        | Inr ls \<Rightarrow>
       (case select_by to_select (centers self) of
          Inl e \<Rightarrow> Inl e
        | Inr cs \<Rightarrow>
          Inr \<lparr>X_dtype = X_dtype self, y_dtype = y_dtype self, debug = debug self,
               features = fs, labels = ls, centers = cs, sets = ss,
               chosen_centers = ch_centers, chosen_sets = ch_sets\<rparr>)))))"

definition FedHeartDisease_init ::
  "(nat \<Rightarrow> 'g) \<Rightarrow> ('g \<Rightarrow> rat \<times> 'g) \<Rightarrow> 'g \<Rightarrow> int \<Rightarrow> bool \<Rightarrow> bool \<Rightarrow> dtype \<Rightarrow> dtype \<Rightarrow> bool
     \<Rightarrow> data_file list \<Rightarrow> error + fed_dataset" where
  "FedHeartDisease_init seed rand g0 center train pooled X y dbg files =
     (case HeartDiseaseRaw_init seed rand g0 X y dbg files of
        Inl e \<Rightarrow> Inl e
      | Inr self \<Rightarrow> fed_filter center train pooled self)"

subsection \<open>Notions of the specification\<close>

text \<open>The first \<open>n\<close> draws of the generator from the state \<open>g\<close>, and the state they
  leave.\<close>

fun draws :: "('g \<Rightarrow> rat \<times> 'g) \<Rightarrow> nat \<Rightarrow> 'g \<Rightarrow> rat list" where
  "draws rand 0 g = []"
| "draws rand (Suc n) g = fst (rand g) # draws rand n (snd (rand g))"

fun after_draws :: "('g \<Rightarrow> rat \<times> 'g) \<Rightarrow> nat \<Rightarrow> 'g \<Rightarrow> 'g" where
  "after_draws rand 0 g = g"
| "after_draws rand (Suc n) g = after_draws rand n (snd (rand g))"

text \<open>The split that a draw decides.\<close>

definition split_of :: "rat \<Rightarrow> string" where
  "split_of u = (if u < 66 / 100 then ''train'' else ''test'')"

text \<open>
  A row of the specification: a line of a file is retained when, columns 10, 11 and 12
  apart, none of its fields is missing, where \<^verbatim>\<open>?\<close> counts as missing.
\<close>

definition missing :: "cell \<Rightarrow> bool" where
  "missing c = (c = Text ''?'' \<or> c = Empty)"

definition retained :: "cell list \<Rightarrow> bool" where
  "retained r = list_all (\<lambda>i. i \<in> {10, 11, 12} \<or> \<not> missing (r ! i)) [0..<length r]"

text \<open>A table as \<^verbatim>\<open>read_csv\<close> returns it: every line has as many fields as the
  first.\<close>

definition rectangular :: "cell list list \<Rightarrow> bool" where
  "rectangular tbl = list_all (\<lambda>r. length r = length (hd tbl)) tbl"

text \<open>The rows of a dataset: the entries of its four lists that share an index.\<close>

definition rows_of :: "'z dataset_scheme \<Rightarrow> (tensor \<times> tensor \<times> int \<times> string) list" where
  "rows_of self = zip (features self) (zip (labels self) (zip (centers self) (sets self)))"

definition row_center :: "tensor \<times> tensor \<times> int \<times> string \<Rightarrow> int" where
  "row_center r = fst (snd (snd r))"

definition row_split :: "tensor \<times> tensor \<times> int \<times> string \<Rightarrow> string" where
  "row_split r = snd (snd (snd r))"

text \<open>A dataset whose four lists have the length that \<^verbatim>\<open>__len__\<close> returns.\<close>

definition aligned :: "'z dataset_scheme \<Rightarrow> bool" where
  "aligned self =
     (length (features self) = len self \<and> length (centers self) = len self
      \<and> length (sets self) = len self)"

subsection \<open>Notions of the proofs\<close>

text \<open>The rows of a file that the loop keeps: the frame \<^verbatim>\<open>df\<close> of its second
  statement.\<close>

definition cleaned :: "cell list list \<Rightarrow> val list list" where
  "cleaned tbl =
     filter (\<lambda>r. NaNv \<notin> set r)
       (map (drop_row [10, 11, 12] [0..<length (hd tbl)])
          (map (map replace_val) (map (read_row tbl (length (hd tbl))) tbl)))"

text \<open>The dtype of the label column of a file: whether it is \<^verbatim>\<open>object\<close>.\<close>

definition text_label :: "cell list list \<Rightarrow> bool" where
  "text_label tbl =
     (last (filter (\<lambda>c. c \<notin> set [10, 11, 12]) [0..<length (hd tbl)])
        \<in> set (filter (\<lambda>c. c \<notin> set [10, 11, 12])
                 (filter (text_column tbl) [0..<length (hd tbl)])))"

definition kept :: "data_file list \<Rightarrow> nat" where
  "kept fs = sum_list (map (\<lambda>f. length (cleaned (table f))) fs)"

text \<open>The entries of a list that a mask selects.\<close>

definition masked :: "bool list \<Rightarrow> 'a list \<Rightarrow> 'a list" where
  "masked m xs = map snd (filter fst (zip m xs))"

text \<open>The condition of \<^verbatim>\<open>to_select\<close>, on a row.\<close>

definition chosen :: "int \<Rightarrow> bool \<Rightarrow> bool \<Rightarrow> tensor \<times> tensor \<times> int \<times> string \<Rightarrow> bool" where
  "chosen center train pooled r =
     (row_split r \<in> set (if train then [''train''] else [''test''])
      \<and> row_center r \<in> set (if pooled then [0, 1, 2, 3] else [center]))"

subsection \<open>A sample directory\<close>

text \<open>
  Two files, of Cleveland and of the VA, with 14 fields a line; the second line of the
  first file lacks a feature, the resting blood pressure of column 3, and column 11 is
  unknown throughout. The numbers are such as \<^verbatim>\<open>float32\<close> holds exactly. The sample
  generator counts: its state is a number, and seeded with 8 it draws 0.6, 0.3, 0.0, 0.7.
\<close>

definition sample_row :: "cell \<Rightarrow> cell \<Rightarrow> cell \<Rightarrow> cell \<Rightarrow> cell list" where
  "sample_row cp trestbps restecg num =
     [Number ''63'' 63, Number ''1'' 1, cp, trestbps, Number ''233'' 233, Number ''1'' 1,
      restecg, Number ''150'' 150, Number ''0'' 0, Number ''2.5'' (5 / 2),
      Number ''3'' 3, Text ''?'', Number ''6'' 6, num]"

definition sample_files :: "data_file list" where
  "sample_files =
     [\<lparr>path = ''heart/processed.cleveland.data'',
       table =
         [sample_row (Number ''1'' 1) (Number ''145'' 145) (Number ''2'' 2) (Number ''3'' 3),
          sample_row (Number ''4'' 4) (Text ''?'') (Number ''0'' 0) (Number ''1'' 1),
          sample_row (Number ''4'' 4) (Number ''145'' 145) (Number ''0'' 0) (Number ''0'' 0)]\<rparr>,
      \<lparr>path = ''heart/processed.va.data'',
       table =
         [sample_row (Number ''3'' 3) (Number ''145'' 145) (Number ''1'' 1) (Number ''0'' 0),
          sample_row (Number ''4'' 4) (Number ''145'' 145) (Number ''2'' 2) (Number ''2'' 2)]\<rparr>]"

text \<open>One file of three lines, the second of which has \<^verbatim>\<open>?\<close> for its label.\<close>

definition question_files :: "data_file list" where
  "question_files =
     [\<lparr>path = ''heart/processed.cleveland.data'',
       table =
         [sample_row (Number ''1'' 1) (Number ''145'' 145) (Number ''2'' 2) (Number ''3'' 3),
          sample_row (Number ''4'' 4) (Number ''145'' 145) (Number ''0'' 0) (Text ''?''),
          sample_row (Number ''4'' 4) (Number ''145'' 145) (Number ''0'' 0) (Number ''0'' 0)]\<rparr>]"

definition sample_seed :: "nat \<Rightarrow> nat" where
  "sample_seed n = n"

definition sample_rand :: "nat \<Rightarrow> rat \<times> nat" where
  "sample_rand g = (of_nat ((7 * g) mod 10) / 10, g + 1)"

definition sample_X :: "rat \<Rightarrow> rat \<Rightarrow> rat \<Rightarrow> rat \<Rightarrow> tensor" where
  "sample_X a b c d =
     \<lparr>dtype = Float32,
      elems = [Some 63, Some 1, Some 145, Some 233, Some 1, Some 150, Some 0, Some (5 / 2),
               Some a, Some b, Some c, Some d]\<rparr>"

definition sample_y :: "rat \<Rightarrow> tensor" where
  "sample_y l = \<lparr>dtype = Float32, elems = [Some l]\<rparr>"

definition sample_raw :: dataset where
  "sample_raw =
     \<lparr>X_dtype = Float32, y_dtype = Int64, debug = False,
      features = [sample_X 0 0 0 1, sample_X 0 1 0 0, sample_X 1 0 1 0, sample_X 0 1 0 1],
      labels = [sample_y 1, sample_y 0, sample_y 0, sample_y 1],
      centers = [0, 0, 3, 3],
      sets = [''train'', ''train'', ''train'', ''test'']\<rparr>"

definition sample_single :: fed_dataset where
  "sample_single =
     \<lparr>X_dtype = Float32, y_dtype = Int64, debug = False,
      features = [sample_X 0 0 0 1, sample_X 0 1 0 0],
      labels = [sample_y 1, sample_y 0],
      centers = [0, 0],
      sets = [''train'', ''train''],
      chosen_centers = [0], chosen_sets = [''train'']\<rparr>"

definition sample_pooled :: fed_dataset where
  "sample_pooled =
     \<lparr>X_dtype = Float32, y_dtype = Int64, debug = False,
      features = [sample_X 0 0 0 1, sample_X 0 1 0 0, sample_X 1 0 1 0],
      labels = [sample_y 1, sample_y 0, sample_y 0],
      centers = [0, 0, 3],
      sets = [''train'', ''train'', ''train''],
      chosen_centers = [0, 1, 2, 3], chosen_sets = [''train'']\<rparr>"

section \<open>Lemmas\<close>

subsection \<open>The draws of the inner loop\<close>

lemma assign_sets_draws:
  "assign_sets rand n (ss, g) = (ss @ map split_of (draws rand n g), after_draws rand n g)"
  by (induction n arbitrary: ss g) (auto simp: split_of_def train_fraction_def split: prod.splits)

lemma draws_add:
  "draws rand (m + n) g = draws rand m g @ draws rand n (after_draws rand m g)"
  by (induction m arbitrary: g) auto

lemma after_draws_add:
  "after_draws rand (m + n) g = after_draws rand n (after_draws rand m g)"
  by (induction m arbitrary: g) auto

lemma length_draws [simp]: "length (draws rand n g) = n"
  by (induction n arbitrary: g) auto

subsection \<open>The loop over the files\<close>

lemma length_pd_concat [simp]:
  "length (rows (pd_concat a b)) = length (rows a) + length (rows b)"
  by (simp add: pd_concat_def Let_def)

lemma centers_number_range: "centers_number s = Some c \<Longrightarrow> c \<in> {0, 1, 2, 3}"
  by (auto simp: centers_number_def split: if_splits)

lemma read_csv_Inr:
  assumes "read_csv tbl = Inr df0"
  shows "df0 = \<lparr>columns = [0..<length (hd tbl)],
               objects = filter (text_column tbl) [0..<length (hd tbl)],
               rows = map (read_row tbl (length (hd tbl))) tbl\<rparr>"
  using assms by (cases tbl) (auto simp: read_csv_def)

lemma drop_columns_Inr:
  assumes "drop_columns ls df = Inr df1"
  shows "df1 = \<lparr>columns = filter (\<lambda>c. c \<notin> set ls) (columns df),
               objects = filter (\<lambda>c. c \<notin> set ls) (objects df),
               rows = map (drop_row ls (columns df)) (rows df)\<rparr>"
  using assms unfolding drop_columns_def by (simp split: if_splits)

lemma rows_cleaned:
  assumes "read_csv tbl = Inr df0"
      and "drop_columns [10, 11, 12] (replace_question df0) = Inr df1"
  shows "rows (dropna df1) = cleaned tbl"
  by (simp add: drop_columns_Inr [OF assms(2)] read_csv_Inr [OF assms(1)] dropna_def
      replace_question_def cleaned_def)

lemma label_cleaned:
  assumes "read_csv tbl = Inr df0"
      and "drop_columns [10, 11, 12] (replace_question df0) = Inr df1"
      and "iloc_last (dropna df1) = Inr y"
  shows "s_values y = map last (cleaned tbl)" "s_object y = text_label tbl"
proof -
  from assms(3) have y: "y = \<lparr>s_object = (last (columns (dropna df1)) \<in> set (objects (dropna df1))),
      s_values = map last (rows (dropna df1))\<rparr>"
    by (simp add: iloc_last_def split: if_splits)
  show "s_values y = map last (cleaned tbl)"
    by (simp add: y rows_cleaned [OF assms(1,2)])
  show "s_object y = text_label tbl"
    by (simp add: y drop_columns_Inr [OF assms(2)] read_csv_Inr [OF assms(1)] dropna_def
        replace_question_def text_label_def)
qed

lemma load_file_step:
  assumes "load_file rand st f = Inr st'"
  shows "\<exists>c. c \<in> {0, 1, 2, 3}
      \<and> length (rows (l_features st')) = length (rows (l_features st)) + length (cleaned (table f))
      \<and> s_values (l_labels st') = s_values (l_labels st) @ map last (cleaned (table f))
      \<and> s_object (l_labels st') = (s_object (l_labels st) \<or> text_label (table f))
      \<and> l_centers st' = l_centers st @ replicate (length (cleaned (table f))) c
      \<and> l_sets st' = l_sets st @ map split_of (draws rand (length (cleaned (table f))) (l_gen st))
      \<and> l_gen st' = after_draws rand (length (cleaned (table f))) (l_gen st)"
proof -
  from assms obtain name df0 df1 y c where
    df0: "read_csv (table f) = Inr df0" and
    df1: "drop_columns [10, 11, 12] (replace_question df0) = Inr df1" and
    y: "iloc_last (dropna df1) = Inr y" and
    c: "centers_number name = Some c" and
    st': "st' = \<lparr>l_features = pd_concat (l_features st) (iloc_but_last (dropna df1)),
             l_labels = concat_series (l_labels st) y,
             l_centers = l_centers st @ replicate (length (rows (iloc_but_last (dropna df1)))) c,
             l_sets = l_sets st @ map split_of
                 (draws rand (length (rows (iloc_but_last (dropna df1)))) (l_gen st)),
             l_gen = after_draws rand (length (rows (iloc_but_last (dropna df1)))) (l_gen st)\<rparr>"
    unfolding load_file_def Let_def assign_sets_draws
    by (simp split: sum.splits option.splits)
  have k: "length (rows (iloc_but_last (dropna df1))) = length (cleaned (table f))"
    by (simp add: iloc_but_last_def rows_cleaned [OF df0 df1])
  note label_cleaned [OF df0 df1 y]
  with k st' centers_number_range [OF c] show ?thesis
    by (intro exI [of _ c]) (simp add: concat_series_def)
qed

lemma kept_simps [simp]:
  "kept [] = 0" "kept (f # fs) = length (cleaned (table f)) + kept fs"
  by (simp_all add: kept_def)

lemma load_files_steps:
  assumes "load_files rand st fs = Inr st'"
  shows "length (rows (l_features st')) = length (rows (l_features st)) + kept fs
      \<and> s_values (l_labels st')
          = s_values (l_labels st) @ concat (map (\<lambda>f. map last (cleaned (table f))) fs)
      \<and> s_object (l_labels st')
          = (s_object (l_labels st) \<or> list_ex (\<lambda>f. text_label (table f)) fs)
      \<and> length (l_centers st') = length (l_centers st) + kept fs
      \<and> set (l_centers st') \<subseteq> set (l_centers st) \<union> {0, 1, 2, 3}
      \<and> l_sets st' = l_sets st @ map split_of (draws rand (kept fs) (l_gen st))
      \<and> l_gen st' = after_draws rand (kept fs) (l_gen st)"
  using assms
proof (induction fs arbitrary: st)
  case Nil
  then show ?case by auto
next
  case (Cons f fs)
  from Cons.prems obtain st1 where
    f: "load_file rand st f = Inr st1" and fs: "load_files rand st1 fs = Inr st'"
    by (auto split: sum.splits)
  from load_file_step [OF f] obtain c where c: "c \<in> {0, 1, 2, 3}"
    and 1: "length (rows (l_features st1)) = length (rows (l_features st)) + length (cleaned (table f))"
           "s_values (l_labels st1) = s_values (l_labels st) @ map last (cleaned (table f))"
           "s_object (l_labels st1) = (s_object (l_labels st) \<or> text_label (table f))"
           "l_centers st1 = l_centers st @ replicate (length (cleaned (table f))) c"
           "l_sets st1 = l_sets st @ map split_of (draws rand (length (cleaned (table f))) (l_gen st))"
           "l_gen st1 = after_draws rand (length (cleaned (table f))) (l_gen st)"
    by blast
  note IH = Cons.IH [OF fs]
  have "set (l_centers st1) \<subseteq> set (l_centers st) \<union> {0, 1, 2, 3}"
    using c by (auto simp: 1(4))
  with IH have "set (l_centers st') \<subseteq> set (l_centers st) \<union> {0, 1, 2, 3}"
    by blast
  with IH show ?case
    by (simp add: 1 draws_add after_draws_add)
qed

lemma length_get_dummies: "get_dummies cs df = Inr enc \<Longrightarrow> length enc = length (rows df)"
  by (auto simp: get_dummies_def split: if_splits)

lemma length_comprehend: "comprehend f xs = Inr ys \<Longrightarrow> length ys = length xs"
  by (induction xs arbitrary: ys) (auto split: sum.splits)

lemma feature_tensor_dtype:
  "feature_tensor X r = Inr t \<Longrightarrow> feature_tensor X' r = Inr (t\<lparr>dtype := X'\<rparr>)"
  by (auto simp: feature_tensor_def to_tensor_def split: sum.splits)

lemma feature_tensors_dtype:
  "comprehend (feature_tensor X) enc = Inr fs \<Longrightarrow>
     comprehend (feature_tensor X') enc = Inr (map (\<lambda>t. t\<lparr>dtype := X'\<rparr>) fs)"
proof (induction enc arbitrary: fs)
  case Nil
  then show ?case by simp
next
  case (Cons r enc)
  from Cons.prems obtain t ts where
    t: "feature_tensor X r = Inr t" and ts: "comprehend (feature_tensor X) enc = Inr ts"
    and fs: "fs = t # ts"
    by (auto split: sum.splits)
  from feature_tensor_dtype [OF t, of X'] Cons.IH [OF ts] show ?case
    by (simp add: fs)
qed

lemma HeartDiseaseRaw_init_Inr:
  assumes "HeartDiseaseRaw_init seed rand g0 X y dbg files = Inr ds"
  obtains st enc where
    "load_files rand (load_start seed) files = Inr st"
    "get_dummies [2, 6] (l_features st) = Inr enc"
    "comprehend (feature_tensor X) enc = Inr (features ds)"
    "\<not> s_object (l_labels st)"
    "ds = \<lparr>X_dtype = X, y_dtype = y, debug = dbg,
             features = features ds,
             labels = map (\<lambda>v. to_tensor X [number_of (binarize v)]) (s_values (l_labels st)),
             centers = l_centers st,
             sets = l_sets st\<rparr>"
  using assms unfolding HeartDiseaseRaw_init_def label_tensors_def where_zero_def
  by (auto split: sum.splits if_splits simp: comp_def)

lemma raw_facts:
  assumes "HeartDiseaseRaw_init seed rand g0 X y dbg files = Inr ds"
  shows "length (features ds) = kept files" "length (labels ds) = kept files"
    "length (centers ds) = kept files" "length (sets ds) = kept files"
    "set (centers ds) \<subseteq> {0, 1, 2, 3}"
    "sets ds = map split_of (draws rand (kept files) (seed 8))"
proof -
  from assms obtain st enc where
    st: "load_files rand (load_start seed) files = Inr st" and
    enc: "get_dummies [2, 6] (l_features st) = Inr enc" and
    fs: "comprehend (feature_tensor X) enc = Inr (features ds)" and
    ds: "ds = \<lparr>X_dtype = X, y_dtype = y, debug = dbg,
             features = features ds,
             labels = map (\<lambda>v. to_tensor X [number_of (binarize v)]) (s_values (l_labels st)),
             centers = l_centers st,
             sets = l_sets st\<rparr>"
    by (rule HeartDiseaseRaw_init_Inr)
  note L = load_files_steps [OF st]
  have labels: "labels ds = map (\<lambda>v. to_tensor X [number_of (binarize v)]) (s_values (l_labels st))"
    and centers: "centers ds = l_centers st" and sets: "sets ds = l_sets st"
    by (subst ds, simp)+
  show "length (features ds) = kept files"
    using L length_get_dummies [OF enc] length_comprehend [OF fs] by (simp add: load_start_def)
  show "length (labels ds) = kept files"
    using L by (simp add: labels load_start_def kept_def length_concat comp_def)
  show "length (centers ds) = kept files"
    using L by (simp add: centers load_start_def)
  show "length (sets ds) = kept files"
    using L by (simp add: sets load_start_def)
  show "set (centers ds) \<subseteq> {0, 1, 2, 3}"
    using L by (simp add: centers load_start_def)
  show "sets ds = map split_of (draws rand (kept files) (seed 8))"
    using L by (simp add: sets load_start_def)
qed

lemma raw_aligned:
  assumes "HeartDiseaseRaw_init seed rand g0 X y dbg files = Inr ds"
  shows "aligned ds"
  using raw_facts(1-4) [OF assms] by (simp add: aligned_def len_def)

lemma raw_labels:
  assumes "HeartDiseaseRaw_init seed rand g0 X y dbg files = Inr raw"
  obtains st where
    "load_files rand (load_start seed) files = Inr st"
    "\<not> s_object (l_labels st)"
    "labels raw = map (\<lambda>v. to_tensor X [number_of (binarize v)]) (s_values (l_labels st))"
    "y_dtype raw = y"
proof -
  from assms obtain st enc where
    st: "load_files rand (load_start seed) files = Inr st" and
    "get_dummies [2, 6] (l_features st) = Inr enc" and
    "comprehend (feature_tensor X) enc = Inr (features raw)" and
    obj: "\<not> s_object (l_labels st)" and
    raw: "raw = \<lparr>X_dtype = X, y_dtype = y, debug = dbg,
             features = features raw,
             labels = map (\<lambda>v. to_tensor X [number_of (binarize v)]) (s_values (l_labels st)),
             centers = l_centers st,
             sets = l_sets st\<rparr>"
    by (rule HeartDiseaseRaw_init_Inr)
  have "labels raw = map (\<lambda>v. to_tensor X [number_of (binarize v)]) (s_values (l_labels st))"
    "y_dtype raw = y"
    by (subst raw, simp)+
  with st obj show thesis by (rule that)
qed

lemma raw_dtypes:
  assumes "HeartDiseaseRaw_init seed rand g0 X y dbg files = Inr raw"
  shows "y_dtype raw = y" "\<forall>t \<in> set (labels raw). dtype t = X"
proof -
  from assms obtain st where
    "load_files rand (load_start seed) files = Inr st"
    "labels raw = map (\<lambda>v. to_tensor X [number_of (binarize v)]) (s_values (l_labels st))"
    "y_dtype raw = y"
    by (rule raw_labels)
  then show "y_dtype raw = y" "\<forall>t \<in> set (labels raw). dtype t = X"
    by (auto simp: to_tensor_def)
qed

lemma binarize_cases: "number_of (binarize v) = Some 0 \<or> number_of (binarize v) = Some 1"
  by (simp add: binarize_def)

lemma binarize_number: "number_of (binarize v) = (if v = Numv 0 then Some 0 else Some 1)"
  by (simp add: binarize_def)

text \<open>A file whose label column is text makes the construction fail.\<close>

lemma text_label_fails:
  assumes "HeartDiseaseRaw_init seed rand g0 X y dbg files = Inr ds"
  shows "\<not> list_ex (\<lambda>f. text_label (table f)) files"
proof -
  from assms obtain st where
    st: "load_files rand (load_start seed) files = Inr st" and obj: "\<not> s_object (l_labels st)"
    by (rule raw_labels)
  from load_files_steps [OF st] obj show ?thesis
    by (simp add: load_start_def)
qed

subsection \<open>Retained lines\<close>

lemma cell_missing:
  "(\<And>v. c \<noteq> Number ''?'' v) \<Longrightarrow> (replace_val (read_cell obj c) = NaNv) = missing c"
  by (cases c) (auto simp: replace_val_def missing_def)

lemma in_drop_row:
  assumes "length r = w"
  shows "(x \<in> set (drop_row ls [0..<w] r)) = (\<exists>i. i < w \<and> i \<notin> set ls \<and> r ! i = x)"
proof
  assume "x \<in> set (drop_row ls [0..<w] r)"
  then obtain c where "(c, x) \<in> set (zip [0..<w] r)" "c \<notin> set ls"
    by (auto simp: drop_row_def)
  then show "\<exists>i. i < w \<and> i \<notin> set ls \<and> r ! i = x"
    using assms by (auto simp: set_zip)
next
  assume "\<exists>i. i < w \<and> i \<notin> set ls \<and> r ! i = x"
  then obtain i where i: "i < w" "i \<notin> set ls" "r ! i = x" by blast
  then have "(i, x) \<in> set (zip [0..<w] r)"
    using assms by (auto simp: in_set_zip intro!: exI [of _ i])
  with i(2) have "(i, x) \<in> set (filter (\<lambda>(c, v). c \<notin> set ls) (zip [0..<w] r))"
    by simp
  then have "snd (i, x) \<in> set (drop_row ls [0..<w] r)"
    unfolding drop_row_def set_map by (rule imageI)
  then show "x \<in> set (drop_row ls [0..<w] r)" by simp
qed

lemma read_row_nth:
  "length r = w \<Longrightarrow> i < w \<Longrightarrow> read_row tbl w r ! i = read_cell (text_column tbl i) (r ! i)"
  by (simp add: read_row_def)

lemma retained_iff:
  assumes "length r = w" and "\<And>v. Number ''?'' v \<notin> set r"
  shows "(NaNv \<notin> set (drop_row [10, 11, 12] [0..<w] (map replace_val (read_row tbl w r))))
     = retained r"
proof -
  have len: "length (map replace_val (read_row tbl w r)) = w"
    using assms(1) by (simp add: read_row_def)
  have cell: "(replace_val (read_cell (text_column tbl i) (r ! i)) = NaNv) = missing (r ! i)"
    if "i < w" for i
  proof (rule cell_missing)
    fix v
    from that assms(1) have "r ! i \<in> set r" by simp
    with assms(2) [of v] show "r ! i \<noteq> Number ''?'' v" by auto
  qed
  have "(NaNv \<in> set (drop_row [10, 11, 12] [0..<w] (map replace_val (read_row tbl w r))))
      = (\<exists>i. i < w \<and> i \<notin> set [10, 11, 12] \<and> map replace_val (read_row tbl w r) ! i = NaNv)"
    by (rule in_drop_row [OF len])
  also have "\<dots> = (\<exists>i. i < w \<and> i \<notin> set [10, 11, 12] \<and> missing (r ! i))"
  proof (intro ex_cong1 conj_cong refl)
    fix i
    assume i: "i < w"
    then have "map replace_val (read_row tbl w r) ! i
        = replace_val (read_cell (text_column tbl i) (r ! i))"
      using assms(1) by (simp add: read_row_def)
    with cell [OF i]
    show "(map replace_val (read_row tbl w r) ! i = NaNv) = missing (r ! i)"
      by simp
  qed
  finally show ?thesis
    using assms(1) by (auto simp: retained_def list_all_iff)
qed

lemma length_cleaned:
  assumes "rectangular tbl" and "\<And>r v. r \<in> set tbl \<Longrightarrow> Number ''?'' v \<notin> set r"
  shows "length (cleaned tbl) = length (filter retained tbl)"
proof -
  let ?w = "length (hd tbl)"
  have "length (cleaned tbl)
      = length (filter (\<lambda>r. NaNv \<notin> set (drop_row [10, 11, 12] [0..<?w]
          (map replace_val (read_row tbl ?w r)))) tbl)"
    by (simp add: cleaned_def filter_map comp_def)
  also have "filter (\<lambda>r. NaNv \<notin> set (drop_row [10, 11, 12] [0..<?w]
          (map replace_val (read_row tbl ?w r)))) tbl = filter retained tbl"
    using assms by (intro filter_cong refl retained_iff) (simp_all add: rectangular_def list_all_iff)
  finally show ?thesis .
qed

text \<open>
  Of a construction that returns, on files whose lines have as many fields as the first
  and in which no number is written \<^verbatim>\<open>?\<close>: its length is the number of retained lines.
\<close>

lemma len_retained_if_built:
  assumes "HeartDiseaseRaw_init seed rand g0 X y dbg files = Inr ds"
      and "\<And>f. f \<in> set files \<Longrightarrow> rectangular (table f)"
      and "\<And>f r v. f \<in> set files \<Longrightarrow> r \<in> set (table f) \<Longrightarrow> Number ''?'' v \<notin> set r"
  shows "len ds = sum_list (map (\<lambda>f. length (filter retained (table f))) files)"
proof -
  have "len ds = kept files"
    using raw_facts(2) [OF assms(1)] by (simp add: len_def)
  also have "\<dots> = sum_list (map (\<lambda>f. length (filter retained (table f))) files)"
    unfolding kept_def using assms(2,3)
    by (intro arg_cong [where f = sum_list] map_cong refl length_cleaned) blast+
  finally show ?thesis .
qed

subsection \<open>Masks\<close>

lemma masked_simps [simp]:
  "masked [] xs = []" "masked m [] = []"
  "masked (b # m) (x # xs) = (if b then x # masked m xs else masked m xs)"
  by (simp_all add: masked_def)

lemma comprehend_total:
  "(\<And>x. x \<in> set xs \<Longrightarrow> f x = Inr (g x)) \<Longrightarrow> comprehend f xs = Inr (map g xs)"
  by (induction xs) auto

lemma select_by_masked:
  "length xs \<le> length m \<Longrightarrow> select_by m xs = Inr (masked m xs)"
  by (induction m xs rule: select_by.induct) auto

lemma masked_zip:
  "length xs = length m \<Longrightarrow> length ys = length m \<Longrightarrow>
     zip (masked m xs) (masked m ys) = masked m (zip xs ys)"
proof (induction m arbitrary: xs ys)
  case Nil
  then show ?case by simp
next
  case (Cons b m)
  then obtain x xs' y ys' where "xs = x # xs'" "ys = y # ys'"
    by (cases xs; cases ys) auto
  with Cons show ?case by simp
qed

lemma length_masked:
  "length xs = length m \<Longrightarrow> length (masked m xs) = length (filter (\<lambda>b. b) m)"
proof (induction m arbitrary: xs)
  case Nil
  then show ?case by simp
next
  case (Cons b m)
  then obtain x xs' where "xs = x # xs'" by (cases xs) auto
  with Cons show ?case by simp
qed

lemma masked_map: "masked (map P xs) xs = filter P xs"
  by (induction xs) auto

lemma set_masked: "set (masked m xs) \<subseteq> set xs"
  by (auto simp: masked_def dest: set_zip_rightD)

lemma py_index_nat: "i < length xs \<Longrightarrow> py_index xs (int i) = Inr (xs ! i)"
  by (simp add: py_index_def)

lemma select_entry_in_range:
  "i < length ss \<Longrightarrow> i < length cs \<Longrightarrow>
     select_entry chs chc ss cs i = Inr (ss ! i \<in> set chs \<and> cs ! i \<in> set chc)"
  by (simp add: select_entry_def py_index_nat)

lemma to_select_total:
  "n \<le> length ss \<Longrightarrow> n \<le> length cs \<Longrightarrow>
     comprehend (select_entry chs chc ss cs) [0..<n]
       = Inr (map (\<lambda>i. ss ! i \<in> set chs \<and> cs ! i \<in> set chc) [0..<n])"
  by (rule comprehend_total) (simp add: select_entry_in_range)

lemma to_select_rows:
  assumes "length (features self) = n" "length (labels self) = n"
    "length (centers self) = n" "length (sets self) = n"
  shows "map (\<lambda>i. sets self ! i \<in> set (if train then [''train''] else [''test''])
             \<and> centers self ! i \<in> set (if pooled then [0, 1, 2, 3] else [center])) [0..<n]
         = map (chosen center train pooled) (rows_of self)"
  using assms
  by (auto simp: list_eq_iff_nth_eq rows_of_def chosen_def row_split_def row_center_def)

subsection \<open>The federated view\<close>

lemma fed_filter_aligned:
  assumes "length (features self) = n" "length (labels self) = n"
    "length (centers self) = n" "length (sets self) = n"
    and "center \<in> {0, 1, 2, 3}"
  shows "fed_filter center train pooled self =
     Inr \<lparr>X_dtype = X_dtype self, y_dtype = y_dtype self, debug = debug self,
          features = masked (map (chosen center train pooled) (rows_of self)) (features self),
          labels = masked (map (chosen center train pooled) (rows_of self)) (labels self),
          centers = masked (map (chosen center train pooled) (rows_of self)) (centers self),
          sets = masked (map (chosen center train pooled) (rows_of self)) (sets self),
          chosen_centers = (if pooled then [0, 1, 2, 3] else [center]),
          chosen_sets = (if train then [''train''] else [''test''])\<rparr>"
proof -
  let ?chs = "if train then [''train''] else [''test'']"
  let ?chc = "if pooled then [0, 1, 2, 3] else [center]"
  let ?m = "map (chosen center train pooled) (rows_of self)"
  have "comprehend (select_entry ?chs ?chc (sets self) (centers self)) [0..<length (features self)]
      = Inr (map (\<lambda>i. sets self ! i \<in> set ?chs \<and> centers self ! i \<in> set ?chc) [0..<n])"
    using assms(1,3,4) to_select_total [of n "sets self" "centers self" ?chs ?chc]
    by (simp only: order_refl)
  then have m: "comprehend (select_entry ?chs ?chc (sets self) (centers self))
      [0..<length (features self)] = Inr ?m"
    by (simp only: to_select_rows [OF assms(1-4)])
  have len: "length ?m = n"
    using assms(1-4) by (simp add: rows_of_def)
  have sel: "select_by ?m (features self) = Inr (masked ?m (features self))"
    "select_by ?m (sets self) = Inr (masked ?m (sets self))"
    "select_by ?m (labels self) = Inr (masked ?m (labels self))"
    "select_by ?m (centers self) = Inr (masked ?m (centers self))"
    using assms(1-4) len by (simp_all only: select_by_masked order_refl)
  from assms(5) have "\<not> center \<notin> set [0, 1, 2, 3]" by simp
  then show ?thesis
    unfolding fed_filter_def Let_def by (simp only: m sel if_False sum.case)
qed

lemma fed_filter_center:
  "center \<notin> {0, 1, 2, 3} \<Longrightarrow> fed_filter center train pooled self = Inl AssertionError"
  by (simp add: fed_filter_def)

lemma FedHeartDisease_init_Inr:
  assumes "FedHeartDisease_init seed rand g0 c train pooled X y dbg files = Inr fed"
  obtains raw where
    "HeartDiseaseRaw_init seed rand g0 X y dbg files = Inr raw"
    "c \<in> {0, 1, 2, 3}"
    "fed = \<lparr>X_dtype = X_dtype raw, y_dtype = y_dtype raw, debug = debug raw,
          features = masked (map (chosen c train pooled) (rows_of raw)) (features raw),
          labels = masked (map (chosen c train pooled) (rows_of raw)) (labels raw),
          centers = masked (map (chosen c train pooled) (rows_of raw)) (centers raw),
          sets = masked (map (chosen c train pooled) (rows_of raw)) (sets raw),
          chosen_centers = (if pooled then [0, 1, 2, 3] else [c]),
          chosen_sets = (if train then [''train''] else [''test''])\<rparr>"
proof -
  from assms obtain raw where
    raw: "HeartDiseaseRaw_init seed rand g0 X y dbg files = Inr raw" and
    fed: "fed_filter c train pooled raw = Inr fed"
    unfolding FedHeartDisease_init_def by (auto split: sum.splits)
  have c: "c \<in> {0, 1, 2, 3}"
    using fed fed_filter_center [of c train pooled raw] by (cases "c \<in> {0, 1, 2, 3}") simp_all
  note fed_filter_aligned [OF raw_facts(1-4) [OF raw] c, of train pooled]
  with fed raw c that show thesis by simp
qed

lemma fed_succeeds:
  assumes "HeartDiseaseRaw_init seed rand g0 X y dbg files = Inr raw" and "c \<in> {0, 1, 2, 3}"
  shows "\<exists>fed. FedHeartDisease_init seed rand g0 c train pooled X y dbg files = Inr fed"
  unfolding FedHeartDisease_init_def
  by (simp add: assms(1) fed_filter_aligned [OF raw_facts(1-4) [OF assms(1)] assms(2)])

lemma rows_of_masked:
  assumes "aligned self" and "length m' = len self"
  shows "zip (masked m' (features self)) (zip (masked m' (labels self))
           (zip (masked m' (centers self)) (masked m' (sets self))))
         = masked m' (rows_of self)"
  using assms
  by (simp add: aligned_def len_def rows_of_def masked_zip)

lemma length_rows_of: "aligned self \<Longrightarrow> length (rows_of self) = len self"
  by (simp add: aligned_def len_def rows_of_def)

lemma fed_rows:
  assumes "FedHeartDisease_init seed rand g0 c train pooled X y dbg files = Inr fed"
      and "HeartDiseaseRaw_init seed rand g0 X y dbg files = Inr raw"
  shows "rows_of fed = filter (chosen c train pooled) (rows_of raw)" "aligned fed"
proof -
  let ?m = "map (chosen c train pooled) (rows_of raw)"
  from assms obtain
    fed: "fed = \<lparr>X_dtype = X_dtype raw, y_dtype = y_dtype raw, debug = debug raw,
          features = masked ?m (features raw),
          labels = masked ?m (labels raw),
          centers = masked ?m (centers raw),
          sets = masked ?m (sets raw),
          chosen_centers = (if pooled then [0, 1, 2, 3] else [c]),
          chosen_sets = (if train then [''train''] else [''test''])\<rparr>"
    by (auto elim: FedHeartDisease_init_Inr)
  have al: "aligned raw" by (rule raw_aligned [OF assms(2)])
  have m: "length ?m = len raw" by (simp add: length_rows_of [OF al])
  have "rows_of fed = masked ?m (rows_of raw)"
    using rows_of_masked [OF al m] by (simp add: fed rows_of_def)
  then show "rows_of fed = filter (chosen c train pooled) (rows_of raw)"
    by (simp add: masked_map)
  show "aligned fed"
    using al m by (simp add: fed aligned_def len_def length_masked)
qed

lemma fed_aligned:
  assumes "FedHeartDisease_init seed rand g0 c train pooled X y dbg files = Inr fed"
  shows "aligned fed"
proof -
  from assms obtain raw where "HeartDiseaseRaw_init seed rand g0 X y dbg files = Inr raw"
    by (rule FedHeartDisease_init_Inr)
  with assms show ?thesis by (rule fed_rows(2))
qed

lemma chosen_iff:
  "chosen c train pooled r =
     (row_split r = (if train then ''train'' else ''test'')
      \<and> (if pooled then row_center r \<in> {0, 1, 2, 3} else row_center r = c))"
  by (simp add: chosen_def)

lemma raw_y_dtype:
  "HeartDiseaseRaw_init seed rand g0 X y' dbg files
     = map_sum id (\<lambda>d. d\<lparr>y_dtype := y'\<rparr>) (HeartDiseaseRaw_init seed rand g0 X y dbg files)"
  by (simp add: HeartDiseaseRaw_init_def split: sum.splits)

lemma fed_filter_y_dtype:
  "fed_filter c train pooled (self\<lparr>y_dtype := y'\<rparr>)
     = map_sum id (\<lambda>d. d\<lparr>y_dtype := y'\<rparr>) (fed_filter c train pooled self)"
  unfolding fed_filter_def Let_def
  by (simp add: sum.case_distrib [of "map_sum id (\<lambda>d. d\<lparr>y_dtype := y'\<rparr>)"] cong: sum.case_cong)

lemma fed_y_dtype:
  "FedHeartDisease_init seed rand g0 c train pooled X y' dbg files
     = map_sum id (\<lambda>d. d\<lparr>y_dtype := y'\<rparr>)
         (FedHeartDisease_init seed rand g0 c train pooled X y dbg files)"
  unfolding FedHeartDisease_init_def raw_y_dtype [of seed rand g0 X y' dbg files y]
  by (cases "HeartDiseaseRaw_init seed rand g0 X y dbg files") (simp_all add: fed_filter_y_dtype)

subsection \<open>Indexed access\<close>

lemma getitem_cases:
  assumes "length (features self) = len self"
  shows "getitem self idx =
     (if int (len self) \<le> idx then Inl AssertionError
      else if idx < - int (len self) then Inl IndexError
      else if idx < 0 then Inr (features self ! nat (int (len self) + idx),
                                labels self ! nat (int (len self) + idx))
      else Inr (features self ! nat idx, labels self ! nat idx))"
  using assms by (auto simp: getitem_def py_index_def len_def Let_def)

lemma aligned_features: "aligned self \<Longrightarrow> length (features self) = len self"
  by (simp add: aligned_def)

subsection \<open>The sample directory\<close>

lemma sample_raw_eval:
  "HeartDiseaseRaw_init sample_seed sample_rand g0 Float32 Int64 False sample_files = Inr sample_raw"
  unfolding HeartDiseaseRaw_init_def by code_simp

lemma sample_single_eval:
  "FedHeartDisease_init sample_seed sample_rand g0 0 True False Float32 Int64 False sample_files
     = Inr sample_single"
  unfolding FedHeartDisease_init_def sample_raw_eval by code_simp

lemma sample_pooled_eval:
  "FedHeartDisease_init sample_seed sample_rand g0 0 True True Float32 Int64 False sample_files
     = Inr sample_pooled"
  unfolding FedHeartDisease_init_def sample_raw_eval by code_simp

section \<open>The properties\<close>

text \<open>
  Claim C1. Every row that a \<^verbatim>\<open>FedHeartDisease\<close> retains is a row of the base
  dataset (so its center and its split are the original ones), its split is the requested
  one, and its center is the requested one when \<^verbatim>\<open>pooled\<close> is false and one of 0, 1, 2,
  3 when it is true. The rows are all the entries of the view: there are as many as its
  length.
\<close>

theorem fed_rows_center_split:
  assumes "FedHeartDisease_init seed rand g0 c train pooled X y dbg files = Inr fed"
  shows "length (rows_of fed) = len fed
     \<and> (\<exists>raw. HeartDiseaseRaw_init seed rand g0 X y dbg files = Inr raw
            \<and> set (rows_of fed) \<subseteq> set (rows_of raw))
     \<and> (\<forall>r \<in> set (rows_of fed).
            row_split r = (if train then ''train'' else ''test'')
            \<and> (if pooled then row_center r \<in> {0, 1, 2, 3} else row_center r = c))"
proof -
  from assms obtain raw where
    raw: "HeartDiseaseRaw_init seed rand g0 X y dbg files = Inr raw"
    by (rule FedHeartDisease_init_Inr)
  note rows = fed_rows [OF assms raw]
  have "length (rows_of fed) = len fed"
    by (rule length_rows_of [OF rows(2)])
  moreover have "set (rows_of fed) \<subseteq> set (rows_of raw)"
    by (simp add: rows(1))
  moreover have "\<forall>r \<in> set (rows_of fed).
      row_split r = (if train then ''train'' else ''test'')
      \<and> (if pooled then row_center r \<in> {0, 1, 2, 3} else row_center r = c)"
    by (simp only: rows(1) set_filter chosen_iff) blast
  ultimately show ?thesis using raw by blast
qed

text \<open>The property at the sample directory.\<close>

theorem fed_rows_center_split_witness:
  "FedHeartDisease_init sample_seed sample_rand (5 :: nat) 0 True False Float32 Int64 False
       sample_files = Inr sample_single
   \<and> FedHeartDisease_init sample_seed sample_rand (5 :: nat) 0 True True Float32 Int64 False
       sample_files = Inr sample_pooled
   \<and> length (rows_of sample_single) = 2
   \<and> map (\<lambda>r. (row_center r, row_split r)) (rows_of sample_single)
       = [(0, ''train''), (0, ''train'')]
   \<and> length (rows_of sample_pooled) = 3
   \<and> map (\<lambda>r. (row_center r, row_split r)) (rows_of sample_pooled)
       = [(0, ''train''), (0, ''train''), (3, ''train'')]"
proof -
  have 1: "FedHeartDisease_init sample_seed sample_rand (5 :: nat) 0 True False Float32 Int64 False
       sample_files = Inr sample_single"
    by (rule sample_single_eval)
  have 2: "FedHeartDisease_init sample_seed sample_rand (5 :: nat) 0 True True Float32 Int64 False
       sample_files = Inr sample_pooled"
    by (rule sample_pooled_eval)
  have "len sample_single = 2" "len sample_pooled = 3"
    by (simp_all add: len_def sample_single_def sample_pooled_def)
  moreover have "map (\<lambda>r. (row_center r, row_split r)) (rows_of sample_single)
       = [(0, ''train''), (0, ''train'')]"
    "map (\<lambda>r. (row_center r, row_split r)) (rows_of sample_pooled)
       = [(0, ''train''), (0, ''train''), (3, ''train'')]"
    by code_simp+
  ultimately show ?thesis
    using fed_rows_center_split [OF 1] fed_rows_center_split [OF 2] 1 2 by simp
qed

text \<open>
  Claim C2. After the construction of a \<^verbatim>\<open>HeartDiseaseRaw\<close> every stored label is 0
  or 1: the label of row \<open>i\<close> is 0 when the label that the loop read for it is 0, and 1
  otherwise.
\<close>

theorem raw_labels_binary:
  assumes "HeartDiseaseRaw_init seed rand g0 X y dbg files = Inr ds"
  shows "(\<forall>t \<in> set (labels ds). elems t = [Some 0] \<or> elems t = [Some 1])
     \<and> (\<exists>st. load_files rand (load_start seed) files = Inr st
            \<and> length (s_values (l_labels st)) = len ds
            \<and> (\<forall>i \<in> set [0..<len ds].
                   elems (labels ds ! i)
                     = [if s_values (l_labels st) ! i = Numv 0 then Some 0 else Some 1]))"
proof -
  from assms obtain st where
    st: "load_files rand (load_start seed) files = Inr st" and
    ls: "labels ds = map (\<lambda>v. to_tensor X [number_of (binarize v)]) (s_values (l_labels st))"
    by (rule raw_labels)
  have "\<forall>t \<in> set (labels ds). elems t = [Some 0] \<or> elems t = [Some 1]"
    using binarize_cases by (auto simp: ls to_tensor_def)
  moreover have "length (s_values (l_labels st)) = len ds"
    by (simp add: ls len_def)
  moreover have "\<forall>i \<in> set [0..<len ds].
      elems (labels ds ! i) = [if s_values (l_labels st) ! i = Numv 0 then Some 0 else Some 1]"
    by (simp add: ls len_def to_tensor_def binarize_number)
  ultimately show ?thesis using st by blast
qed

text \<open>The property at the sample directory.\<close>

theorem raw_labels_binary_witness:
  "HeartDiseaseRaw_init sample_seed sample_rand (5 :: nat) Float32 Int64 False sample_files
     = Inr sample_raw
   \<and> map_sum id (\<lambda>st. s_values (l_labels st))
         (load_files sample_rand (load_start sample_seed) sample_files)
     = Inr [Numv 3, Numv 0, Numv 0, Numv 2]
   \<and> map elems (labels sample_raw) = [[Some 1], [Some 0], [Some 0], [Some 1]]"
proof -
  have 1: "HeartDiseaseRaw_init sample_seed sample_rand (5 :: nat) Float32 Int64 False sample_files
     = Inr sample_raw"
    by (rule sample_raw_eval)
  have 2: "map_sum id (\<lambda>st. s_values (l_labels st))
         (load_files sample_rand (load_start sample_seed) sample_files)
     = Inr [Numv 3, Numv 0, Numv 0, Numv 2]"
    by code_simp
  have 3: "map elems (labels sample_raw) = [[Some 1], [Some 0], [Some 0], [Some 1]]"
    by code_simp
  from raw_labels_binary [OF 1] 1 2 3 show ?thesis
    by blast
qed

text \<open>
  Claim C3. The split of the rows is decided by the first draws of the generator seeded
  with 8, one draw a row in the order of the rows (which is that of the files): a row is
  in \<^verbatim>\<open>"train"\<close> when its draw is below 0.66 and in \<^verbatim>\<open>"test"\<close> otherwise. So any other
  construction over the same files, whatever the state of the generator before it and
  whatever its other arguments, succeeds with the same assignment.
\<close>

theorem raw_split_deterministic:
  assumes "HeartDiseaseRaw_init seed rand g0 X y dbg files = Inr ds"
  shows "sets ds = map (\<lambda>u. if u < 66 / 100 then ''train'' else ''test'')
                     (draws rand (len ds) (seed 8))
     \<and> (\<forall>g1 X' y' dbg'. \<exists>ds'.
            HeartDiseaseRaw_init seed rand g1 X' y' dbg' files = Inr ds'
            \<and> sets ds' = sets ds)"
proof -
  from assms obtain st enc where
    st: "load_files rand (load_start seed) files = Inr st" and
    enc: "get_dummies [2, 6] (l_features st) = Inr enc" and
    fs: "comprehend (feature_tensor X) enc = Inr (features ds)" and
    obj: "\<not> s_object (l_labels st)" and
    ds: "ds = \<lparr>X_dtype = X, y_dtype = y, debug = dbg,
             features = features ds,
             labels = map (\<lambda>v. to_tensor X [number_of (binarize v)]) (s_values (l_labels st)),
             centers = l_centers st,
             sets = l_sets st\<rparr>"
    by (rule HeartDiseaseRaw_init_Inr)
  have sets: "sets ds = l_sets st"
    by (subst ds) simp
  have "len ds = kept files"
    using raw_facts(2) [OF assms] by (simp add: len_def)
  with raw_facts(6) [OF assms]
  have "sets ds = map split_of (draws rand (len ds) (seed 8))"
    by simp
  then have "sets ds = map (\<lambda>u. if u < 66 / 100 then ''train'' else ''test'')
      (draws rand (len ds) (seed 8))"
    by (simp add: split_of_def [abs_def])
  moreover have "\<exists>ds'. HeartDiseaseRaw_init seed rand g1 X' y' dbg' files = Inr ds'
      \<and> sets ds' = sets ds" for g1 :: 'a and X' y' dbg'
    using obj
    by (simp add: HeartDiseaseRaw_init_def st enc feature_tensors_dtype [OF fs]
        label_tensors_def where_zero_def sets)
  ultimately show ?thesis by blast
qed

text \<open>The property at the sample directory.\<close>

theorem raw_split_deterministic_witness:
  "HeartDiseaseRaw_init sample_seed sample_rand (5 :: nat) Float32 Int64 False sample_files
     = Inr sample_raw
   \<and> draws sample_rand 4 (sample_seed 8) = [6 / 10, 3 / 10, 0, 7 / 10]
   \<and> sets sample_raw = [''train'', ''train'', ''train'', ''test'']
   \<and> (\<exists>ds'. HeartDiseaseRaw_init sample_seed sample_rand (77 :: nat) Float64 Float32 True
              sample_files = Inr ds'
          \<and> sets ds' = [''train'', ''train'', ''train'', ''test''])"
proof -
  have 1: "HeartDiseaseRaw_init sample_seed sample_rand (5 :: nat) Float32 Int64 False sample_files
     = Inr sample_raw"
    by (rule sample_raw_eval)
  have 2: "draws sample_rand 4 (sample_seed 8) = [6 / 10, 3 / 10, 0, 7 / 10]"
    by code_simp
  have 3: "len sample_raw = 4"
    by (simp add: len_def sample_raw_def)
  from raw_split_deterministic [OF 1] have
    a: "sets sample_raw = map (\<lambda>u. if u < 66 / 100 then ''train'' else ''test'')
          (draws sample_rand (len sample_raw) (sample_seed 8))" and
    b: "\<exists>ds'. HeartDiseaseRaw_init sample_seed sample_rand (77 :: nat) Float64 Float32 True
              sample_files = Inr ds' \<and> sets ds' = sets sample_raw"
    by blast+
  from a have c: "sets sample_raw = [''train'', ''train'', ''train'', ''test'']"
    by (simp add: 2 3)
  from b c 1 2 show ?thesis
    by simp
qed

text \<open>
  Claim C4. For one split, the rows of the view of a center \<open>c\<close> are the rows of the
  pooled view whose center is \<open>c\<close>: a subsequence of them, hence a subset, and the view
  of the center is no longer than the pooled one.
\<close>

theorem pooled_superset:
  assumes "FedHeartDisease_init seed rand g0 c' train True X y dbg files = Inr pooled"
      and "FedHeartDisease_init seed rand g0 c train False X y dbg files = Inr single"
  shows "rows_of single = filter (\<lambda>r. row_center r = c) (rows_of pooled)
     \<and> subseq (rows_of single) (rows_of pooled)
     \<and> set (rows_of single) \<subseteq> set (rows_of pooled)
     \<and> length (rows_of pooled) = len pooled \<and> length (rows_of single) = len single
     \<and> len single \<le> len pooled"
proof -
  from assms(2) obtain raw where
    raw: "HeartDiseaseRaw_init seed rand g0 X y dbg files = Inr raw" and c: "c \<in> {0, 1, 2, 3}"
    by (rule FedHeartDisease_init_Inr)
  note p = fed_rows [OF assms(1) raw] and s = fed_rows [OF assms(2) raw]
  have "filter (\<lambda>r. row_center r = c) (filter (chosen c' train True) (rows_of raw))
      = filter (chosen c train False) (rows_of raw)"
    using c by (auto simp: chosen_iff intro: filter_cong)
  then have eq: "rows_of single = filter (\<lambda>r. row_center r = c) (rows_of pooled)"
    by (simp only: p(1) s(1))
  have lens: "length (rows_of pooled) = len pooled" "length (rows_of single) = len single"
    by (rule length_rows_of [OF p(2)], rule length_rows_of [OF s(2)])
  have "length (rows_of single) \<le> length (rows_of pooled)"
    by (simp only: eq length_filter_le)
  with lens have "len single \<le> len pooled" by simp
  moreover have "subseq (rows_of single) (rows_of pooled)"
    by (simp only: eq subseq_filter_left)
  moreover have "set (rows_of single) \<subseteq> set (rows_of pooled)"
    by (simp only: eq set_filter) blast
  ultimately show ?thesis using eq lens by blast
qed

text \<open>The property at the sample directory.\<close>

theorem pooled_superset_witness:
  "FedHeartDisease_init sample_seed sample_rand (5 :: nat) 0 True True Float32 Int64 False
       sample_files = Inr sample_pooled
   \<and> FedHeartDisease_init sample_seed sample_rand (5 :: nat) 0 True False Float32 Int64 False
       sample_files = Inr sample_single
   \<and> subseq (rows_of sample_single) (rows_of sample_pooled)
   \<and> set (rows_of sample_single) \<subseteq> set (rows_of sample_pooled)
   \<and> len sample_single = 2 \<and> len sample_pooled = 3"
proof -
  have 1: "FedHeartDisease_init sample_seed sample_rand (5 :: nat) 0 True True Float32 Int64 False
       sample_files = Inr sample_pooled"
    by (rule sample_pooled_eval)
  have 2: "FedHeartDisease_init sample_seed sample_rand (5 :: nat) 0 True False Float32 Int64 False
       sample_files = Inr sample_single"
    by (rule sample_single_eval)
  have "len sample_single = 2" "len sample_pooled = 3"
    by (simp_all add: len_def sample_single_def sample_pooled_def)
  with pooled_superset [OF 1 2] 1 2 show ?thesis
    by simp
qed

text \<open>
  Claim C5. For a dataset of either class, \<^verbatim>\<open>__len__\<close> is the number of stored labels;
  an index at or above it fails with an \<^verbatim>\<open>AssertionError\<close>, and an index from 0 up to
  it returns the features and the label at that position.
\<close>

theorem getitem_range:
  "(HeartDiseaseRaw_init seed rand g0 X y dbg files = Inr raw \<longrightarrow>
      len raw = length (labels raw)
      \<and> (int (len raw) \<le> idx \<longrightarrow> getitem raw idx = Inl AssertionError)
      \<and> (0 \<le> idx \<and> idx < int (len raw) \<longrightarrow>
            getitem raw idx = Inr (features raw ! nat idx, labels raw ! nat idx)))
   \<and> (FedHeartDisease_init seed rand g0 c train pooled X y dbg files = Inr fed \<longrightarrow>
      len fed = length (labels fed)
      \<and> (int (len fed) \<le> idx \<longrightarrow> getitem fed idx = Inl AssertionError)
      \<and> (0 \<le> idx \<and> idx < int (len fed) \<longrightarrow>
            getitem fed idx = Inr (features fed ! nat idx, labels fed ! nat idx)))"
proof (intro conjI impI)
  assume "HeartDiseaseRaw_init seed rand g0 X y dbg files = Inr raw"
  then have *: "length (features raw) = len raw"
    by (intro aligned_features raw_aligned)
  show "len raw = length (labels raw)" by (simp add: len_def)
  show "getitem raw idx = Inl AssertionError" if "int (len raw) \<le> idx"
    using that by (simp add: getitem_cases [OF *])
  show "getitem raw idx = Inr (features raw ! nat idx, labels raw ! nat idx)"
    if "0 \<le> idx \<and> idx < int (len raw)"
    using that by (simp add: getitem_cases [OF *])
next
  assume "FedHeartDisease_init seed rand g0 c train pooled X y dbg files = Inr fed"
  then have *: "length (features fed) = len fed"
    by (intro aligned_features fed_aligned)
  show "len fed = length (labels fed)" by (simp add: len_def)
  show "getitem fed idx = Inl AssertionError" if "int (len fed) \<le> idx"
    using that by (simp add: getitem_cases [OF *])
  show "getitem fed idx = Inr (features fed ! nat idx, labels fed ! nat idx)"
    if "0 \<le> idx \<and> idx < int (len fed)"
    using that by (simp add: getitem_cases [OF *])
qed

text \<open>The property at the sample directory.\<close>

theorem getitem_range_witness:
  "HeartDiseaseRaw_init sample_seed sample_rand (5 :: nat) Float32 Int64 False sample_files
     = Inr sample_raw
   \<and> FedHeartDisease_init sample_seed sample_rand (5 :: nat) 0 True False Float32 Int64 False
       sample_files = Inr sample_single
   \<and> len sample_raw = 4 \<and> len sample_single = 2
   \<and> getitem sample_raw 4 = Inl AssertionError
   \<and> getitem sample_single 2 = Inl AssertionError
   \<and> getitem sample_raw 2 = Inr (sample_X 1 0 1 0, sample_y 0)
   \<and> getitem sample_single 1 = Inr (sample_X 0 1 0 0, sample_y 0)"
proof -
  have 1: "HeartDiseaseRaw_init sample_seed sample_rand (5 :: nat) Float32 Int64 False sample_files
     = Inr sample_raw"
    by (rule sample_raw_eval)
  have 2: "FedHeartDisease_init sample_seed sample_rand (5 :: nat) 0 True False Float32 Int64 False
       sample_files = Inr sample_single"
    by (rule sample_single_eval)
  have 3: "len sample_raw = 4" "len sample_single = 2"
    by (simp_all add: len_def sample_raw_def sample_single_def)
  have 4: "features sample_raw ! nat 2 = sample_X 1 0 1 0" "labels sample_raw ! nat 2 = sample_y 0"
    "features sample_single ! nat 1 = sample_X 0 1 0 0" "labels sample_single ! nat 1 = sample_y 0"
    by (simp_all add: sample_raw_def sample_single_def numeral_2_eq_2)
  from getitem_range [of sample_seed sample_rand "5 :: nat" Float32 Int64 False sample_files
      sample_raw 4 0 True False sample_single]
    getitem_range [of sample_seed sample_rand "5 :: nat" Float32 Int64 False sample_files
      sample_raw 2 0 True False sample_single]
    getitem_range [of sample_seed sample_rand "5 :: nat" Float32 Int64 False sample_files
      sample_raw 1 0 True False sample_single]
    1 2 3 4
  show ?thesis by simp
qed

text \<open>
  Claim C6. With a center outside 0, 1, 2, 3 the construction of a \<^verbatim>\<open>FedHeartDisease\<close>
  fails whatever \<^verbatim>\<open>train\<close> and \<^verbatim>\<open>pooled\<close> are, and with an \<^verbatim>\<open>AssertionError\<close> whenever
  the constructor of the base class returns. With a center among them it fails only when
  the constructor of the base class fails, and then with its error.
\<close>

theorem center_check:
  "(c \<notin> {0, 1, 2, 3} \<longrightarrow>
      (\<exists>e. FedHeartDisease_init seed rand g0 c train pooled X y dbg files = Inl e)
      \<and> (\<forall>raw. HeartDiseaseRaw_init seed rand g0 X y dbg files = Inr raw \<longrightarrow>
             FedHeartDisease_init seed rand g0 c train pooled X y dbg files = Inl AssertionError))
   \<and> (c \<in> {0, 1, 2, 3} \<longrightarrow>
      (\<forall>raw. HeartDiseaseRaw_init seed rand g0 X y dbg files = Inr raw \<longrightarrow>
         (\<exists>fed. FedHeartDisease_init seed rand g0 c train pooled X y dbg files = Inr fed))
      \<and> (\<forall>e. FedHeartDisease_init seed rand g0 c train pooled X y dbg files = Inl e \<longrightarrow>
             HeartDiseaseRaw_init seed rand g0 X y dbg files = Inl e))"
proof (intro conjI impI allI)
  assume c: "c \<notin> {0, 1, 2, 3}"
  show "\<exists>e. FedHeartDisease_init seed rand g0 c train pooled X y dbg files = Inl e"
    unfolding FedHeartDisease_init_def
    by (cases "HeartDiseaseRaw_init seed rand g0 X y dbg files")
      (simp_all add: fed_filter_center [OF c])
  show "FedHeartDisease_init seed rand g0 c train pooled X y dbg files = Inl AssertionError"
    if "HeartDiseaseRaw_init seed rand g0 X y dbg files = Inr raw" for raw
    unfolding FedHeartDisease_init_def by (simp add: that fed_filter_center [OF c])
next
  assume c: "c \<in> {0, 1, 2, 3}"
  show "\<exists>fed. FedHeartDisease_init seed rand g0 c train pooled X y dbg files = Inr fed"
    if "HeartDiseaseRaw_init seed rand g0 X y dbg files = Inr raw" for raw
    using that c by (rule fed_succeeds)
  show "HeartDiseaseRaw_init seed rand g0 X y dbg files = Inl e"
    if "FedHeartDisease_init seed rand g0 c train pooled X y dbg files = Inl e" for e
  proof (cases "HeartDiseaseRaw_init seed rand g0 X y dbg files")
    case (Inl e')
    with that show ?thesis by (simp add: FedHeartDisease_init_def)
  next
    case (Inr raw)
    with fed_succeeds [OF Inr c, of train pooled] that show ?thesis by auto
  qed
qed

text \<open>The property at the sample directory.\<close>

theorem center_check_witness:
  "(5 :: int) \<notin> {0, 1, 2, 3} \<and> (3 :: int) \<in> {0, 1, 2, 3}
   \<and> HeartDiseaseRaw_init sample_seed sample_rand (5 :: nat) Float32 Int64 False sample_files
       = Inr sample_raw
   \<and> FedHeartDisease_init sample_seed sample_rand (5 :: nat) 5 True False Float32 Int64 False
       sample_files = Inl AssertionError
   \<and> (\<exists>fed. FedHeartDisease_init sample_seed sample_rand (5 :: nat) 3 True False Float32 Int64
       False sample_files = Inr fed)
   \<and> HeartDiseaseRaw_init sample_seed sample_rand (5 :: nat) Float32 Int64 False [] = Inl KeyError
   \<and> FedHeartDisease_init sample_seed sample_rand (5 :: nat) 3 True False Float32 Int64 False []
       = Inl KeyError"
proof -
  have 1: "HeartDiseaseRaw_init sample_seed sample_rand (5 :: nat) Float32 Int64 False sample_files
       = Inr sample_raw"
    by (rule sample_raw_eval)
  have 2: "HeartDiseaseRaw_init sample_seed sample_rand (5 :: nat) Float32 Int64 False []
       = Inl KeyError"
    unfolding HeartDiseaseRaw_init_def by code_simp
  have 3: "FedHeartDisease_init sample_seed sample_rand (5 :: nat) 3 True False Float32 Int64 False []
       = Inl KeyError"
    unfolding FedHeartDisease_init_def 2 by simp
  from center_check [of 5 sample_seed sample_rand "5 :: nat" True False Float32 Int64 False
      sample_files]
    center_check [of 3 sample_seed sample_rand "5 :: nat" True False Float32 Int64 False
      sample_files]
    center_check [of 3 sample_seed sample_rand "5 :: nat" True False Float32 Int64 False "[]"]
    1 2 3
  show ?thesis by simp
qed

text \<open>
  Claim C7. The length of a \<^verbatim>\<open>HeartDiseaseRaw\<close> should be the number of retained lines
  of the files: those without a missing field, columns 10, 11 and 12 apart, where
  \<^verbatim>\<open>?\<close> counts as missing. On a file of three lines of 14 fields whose second line has
  \<^verbatim>\<open>?\<close> for its label, two lines are retained, but the constructor raises a
  \<^verbatim>\<open>TypeError\<close> and builds no dataset: the label column is read as text, stays of
  dtype \<^verbatim>\<open>object\<close>, and \<^verbatim>\<open>torch.from_numpy\<close> refuses it.
\<close>

theorem question_label_type_error:
  "map (\<lambda>f. rectangular (table f)) question_files = [True]
   \<and> map (\<lambda>f. map retained (table f)) question_files = [[True, False, True]]
   \<and> sum_list (map (\<lambda>f. length (filter retained (table f))) question_files) = 2
   \<and> map_sum id (\<lambda>st. (l_labels st, l_centers st, l_sets st))
         (load_files sample_rand (load_start sample_seed) question_files)
     = Inr (\<lparr>s_object = True, s_values = [Strv ''3'' (Some 3), Strv ''0'' (Some 0)]\<rparr>,
            [0, 0], [''train'', ''train''])
   \<and> HeartDiseaseRaw_init sample_seed sample_rand (5 :: nat) Float32 Int64 False question_files
     = Inl TypeError"
proof -
  have "map (\<lambda>f. rectangular (table f)) question_files = [True]"
    by code_simp
  moreover have "map (\<lambda>f. map retained (table f)) question_files = [[True, False, True]]"
    by code_simp
  moreover have "sum_list (map (\<lambda>f. length (filter retained (table f))) question_files) = 2"
    by code_simp
  moreover have "map_sum id (\<lambda>st. (l_labels st, l_centers st, l_sets st))
         (load_files sample_rand (load_start sample_seed) question_files)
     = Inr (\<lparr>s_object = True, s_values = [Strv ''3'' (Some 3), Strv ''0'' (Some 0)]\<rparr>,
            [0, 0], [''train'', ''train''])"
    by code_simp
  moreover have "HeartDiseaseRaw_init sample_seed sample_rand (5 :: nat) Float32 Int64 False
      question_files = Inl TypeError"
    unfolding HeartDiseaseRaw_init_def by code_simp
  ultimately show ?thesis by blast
qed

text \<open>
  Claim C8. The four lists of a \<^verbatim>\<open>FedHeartDisease\<close> are those of the base dataset under
  one and the same mask, so its rows are the rows of the base dataset that satisfy the
  condition of the mask, each with its own features, label, center and split, in the
  order of the base dataset.
\<close>

theorem fed_mask_parallel:
  assumes "FedHeartDisease_init seed rand g0 c train pooled X y dbg files = Inr fed"
  shows "\<exists>raw. HeartDiseaseRaw_init seed rand g0 X y dbg files = Inr raw
     \<and> length (rows_of raw) = len raw \<and> length (rows_of fed) = len fed
     \<and> features fed = masked (map (chosen c train pooled) (rows_of raw)) (features raw)
     \<and> labels fed = masked (map (chosen c train pooled) (rows_of raw)) (labels raw)
     \<and> centers fed = masked (map (chosen c train pooled) (rows_of raw)) (centers raw)
     \<and> sets fed = masked (map (chosen c train pooled) (rows_of raw)) (sets raw)
     \<and> rows_of fed = filter (chosen c train pooled) (rows_of raw)
     \<and> subseq (rows_of fed) (rows_of raw)"
proof -
  let ?m = "map (chosen c train pooled) (rows_of raw)"
  from assms obtain raw where
    raw: "HeartDiseaseRaw_init seed rand g0 X y dbg files = Inr raw" and
    fed: "fed = \<lparr>X_dtype = X_dtype raw, y_dtype = y_dtype raw, debug = debug raw,
          features = masked (map (chosen c train pooled) (rows_of raw)) (features raw),
          labels = masked (map (chosen c train pooled) (rows_of raw)) (labels raw),
          centers = masked (map (chosen c train pooled) (rows_of raw)) (centers raw),
          sets = masked (map (chosen c train pooled) (rows_of raw)) (sets raw),
          chosen_centers = (if pooled then [0, 1, 2, 3] else [c]),
          chosen_sets = (if train then [''train''] else [''test''])\<rparr>"
    by (rule FedHeartDisease_init_Inr)
  note rows = fed_rows [OF assms raw]
  have "length (rows_of raw) = len raw"
    by (rule length_rows_of [OF raw_aligned [OF raw]])
  moreover have "length (rows_of fed) = len fed"
    by (rule length_rows_of [OF rows(2)])
  moreover have "subseq (rows_of fed) (rows_of raw)"
    by (simp only: rows(1) subseq_filter_left)
  ultimately show ?thesis
    using raw rows(1) by (intro exI [of _ raw]) (simp add: fed)
qed

text \<open>The property at the sample directory.\<close>

theorem fed_mask_parallel_witness:
  "FedHeartDisease_init sample_seed sample_rand (5 :: nat) 0 True False Float32 Int64 False
       sample_files = Inr sample_single
   \<and> HeartDiseaseRaw_init sample_seed sample_rand (5 :: nat) Float32 Int64 False sample_files
       = Inr sample_raw
   \<and> rows_of sample_single = filter (chosen 0 True False) (rows_of sample_raw)
   \<and> subseq (rows_of sample_single) (rows_of sample_raw)
   \<and> features sample_single
       = masked [True, True, False, False] (features sample_raw)"
proof -
  have 1: "FedHeartDisease_init sample_seed sample_rand (5 :: nat) 0 True False Float32 Int64 False
       sample_files = Inr sample_single"
    by (rule sample_single_eval)
  have 2: "HeartDiseaseRaw_init sample_seed sample_rand (5 :: nat) Float32 Int64 False sample_files
       = Inr sample_raw"
    by (rule sample_raw_eval)
  have 3: "map (chosen 0 True False) (rows_of sample_raw) = [True, True, False, False]"
    by code_simp
  from fed_mask_parallel [OF 1] 1 2 3 show ?thesis
    by simp
qed

text \<open>
  Claim C9. Constructing with another \<^verbatim>\<open>y_dtype\<close> changes the attribute
  \<^verbatim>\<open>y_dtype\<close> of the result and nothing else, for both classes; \<^verbatim>\<open>__getitem__\<close> and
  \<^verbatim>\<open>__len__\<close> do not read that attribute; and every label tensor has the dtype
  \<^verbatim>\<open>X_dtype\<close>.
\<close>

theorem y_dtype_unused:
  "HeartDiseaseRaw_init seed rand g0 X y' dbg files
     = map_sum id (\<lambda>d. d\<lparr>y_dtype := y'\<rparr>) (HeartDiseaseRaw_init seed rand g0 X y dbg files)
   \<and> FedHeartDisease_init seed rand g0 c train pooled X y' dbg files
     = map_sum id (\<lambda>d. d\<lparr>y_dtype := y'\<rparr>)
         (FedHeartDisease_init seed rand g0 c train pooled X y dbg files)
   \<and> getitem (self\<lparr>y_dtype := y'\<rparr>) idx = getitem self idx
   \<and> len (self\<lparr>y_dtype := y'\<rparr>) = len self
   \<and> (HeartDiseaseRaw_init seed rand g0 X y dbg files = Inr raw \<longrightarrow>
        y_dtype raw = y \<and> (\<forall>t \<in> set (labels raw). dtype t = X))
   \<and> (FedHeartDisease_init seed rand g0 c train pooled X y dbg files = Inr fed \<longrightarrow>
        y_dtype fed = y \<and> (\<forall>t \<in> set (labels fed). dtype t = X))"
proof (intro conjI impI)
  show "HeartDiseaseRaw_init seed rand g0 X y' dbg files
     = map_sum id (\<lambda>d. d\<lparr>y_dtype := y'\<rparr>) (HeartDiseaseRaw_init seed rand g0 X y dbg files)"
    by (rule raw_y_dtype)
  show "FedHeartDisease_init seed rand g0 c train pooled X y' dbg files
     = map_sum id (\<lambda>d. d\<lparr>y_dtype := y'\<rparr>)
         (FedHeartDisease_init seed rand g0 c train pooled X y dbg files)"
    by (rule fed_y_dtype)
  show "getitem (self\<lparr>y_dtype := y'\<rparr>) idx = getitem self idx"
    by (simp add: getitem_def cong: sum.case_cong)
  show "len (self\<lparr>y_dtype := y'\<rparr>) = len self"
    by (simp add: len_def)
next
  assume "HeartDiseaseRaw_init seed rand g0 X y dbg files = Inr raw"
  then show "y_dtype raw = y" "\<forall>t \<in> set (labels raw). dtype t = X"
    by (rule raw_dtypes)+
next
  assume fed: "FedHeartDisease_init seed rand g0 c train pooled X y dbg files = Inr fed"
  then obtain raw where
    raw: "HeartDiseaseRaw_init seed rand g0 X y dbg files = Inr raw" and
    fed: "fed = \<lparr>X_dtype = X_dtype raw, y_dtype = y_dtype raw, debug = debug raw,
          features = masked (map (chosen c train pooled) (rows_of raw)) (features raw),
          labels = masked (map (chosen c train pooled) (rows_of raw)) (labels raw),
          centers = masked (map (chosen c train pooled) (rows_of raw)) (centers raw),
          sets = masked (map (chosen c train pooled) (rows_of raw)) (sets raw),
          chosen_centers = (if pooled then [0, 1, 2, 3] else [c]),
          chosen_sets = (if train then [''train''] else [''test''])\<rparr>"
    by (rule FedHeartDisease_init_Inr)
  from raw_dtypes [OF raw] set_masked [of "map (chosen c train pooled) (rows_of raw)" "labels raw"]
  show "y_dtype fed = y" "\<forall>t \<in> set (labels fed). dtype t = X"
    by (auto simp: fed)
qed

text \<open>The property at the sample directory.\<close>

theorem y_dtype_unused_witness:
  "HeartDiseaseRaw_init sample_seed sample_rand (5 :: nat) Float32 Int64 False sample_files
     = Inr sample_raw
   \<and> HeartDiseaseRaw_init sample_seed sample_rand (5 :: nat) Float32 Float64 False sample_files
     = Inr (sample_raw\<lparr>y_dtype := Float64\<rparr>)
   \<and> FedHeartDisease_init sample_seed sample_rand (5 :: nat) 0 True False Float32 Int64 False
       sample_files = Inr sample_single
   \<and> FedHeartDisease_init sample_seed sample_rand (5 :: nat) 0 True False Float32 Float64 False
       sample_files = Inr (sample_single\<lparr>y_dtype := Float64\<rparr>)
   \<and> y_dtype sample_raw = Int64 \<and> y_dtype sample_single = Int64
   \<and> map dtype (labels sample_raw) = [Float32, Float32, Float32, Float32]
   \<and> map dtype (labels sample_single) = [Float32, Float32]"
proof -
  have 1: "HeartDiseaseRaw_init sample_seed sample_rand (5 :: nat) Float32 Int64 False sample_files
     = Inr sample_raw"
    by (rule sample_raw_eval)
  have 2: "FedHeartDisease_init sample_seed sample_rand (5 :: nat) 0 True False Float32 Int64 False
       sample_files = Inr sample_single"
    by (rule sample_single_eval)
  from y_dtype_unused [of sample_seed sample_rand "5 :: nat" Float32 Float64 False sample_files
      Int64 0 True False sample_raw 0 sample_raw sample_single] 1 2
  show ?thesis
    by (simp add: sample_raw_def sample_single_def sample_y_def)
qed

text \<open>
  Claim C10. For a dataset of either class and an index from minus its length up to -1,
  \<^verbatim>\<open>__getitem__\<close> returns the features and the label at the position length plus index;
  and it fails with an \<^verbatim>\<open>AssertionError\<close> exactly for the indices at or above the
  length.
\<close>

theorem getitem_negative:
  "(HeartDiseaseRaw_init seed rand g0 X y dbg files = Inr raw \<longrightarrow>
      (- int (len raw) \<le> idx \<and> idx < 0 \<longrightarrow>
         getitem raw idx = Inr (features raw ! nat (int (len raw) + idx),
                                labels raw ! nat (int (len raw) + idx)))
      \<and> (getitem raw idx = Inl AssertionError) = (int (len raw) \<le> idx))
   \<and> (FedHeartDisease_init seed rand g0 c train pooled X y dbg files = Inr fed \<longrightarrow>
      (- int (len fed) \<le> idx \<and> idx < 0 \<longrightarrow>
         getitem fed idx = Inr (features fed ! nat (int (len fed) + idx),
                                labels fed ! nat (int (len fed) + idx)))
      \<and> (getitem fed idx = Inl AssertionError) = (int (len fed) \<le> idx))"
proof (intro conjI impI)
  assume "HeartDiseaseRaw_init seed rand g0 X y dbg files = Inr raw"
  then have *: "length (features raw) = len raw"
    by (intro aligned_features raw_aligned)
  show "getitem raw idx = Inr (features raw ! nat (int (len raw) + idx),
      labels raw ! nat (int (len raw) + idx))" if "- int (len raw) \<le> idx \<and> idx < 0"
    using that by (simp add: getitem_cases [OF *])
  show "(getitem raw idx = Inl AssertionError) = (int (len raw) \<le> idx)"
    by (simp add: getitem_cases [OF *])
next
  assume "FedHeartDisease_init seed rand g0 c train pooled X y dbg files = Inr fed"
  then have *: "length (features fed) = len fed"
    by (intro aligned_features fed_aligned)
  show "getitem fed idx = Inr (features fed ! nat (int (len fed) + idx),
      labels fed ! nat (int (len fed) + idx))" if "- int (len fed) \<le> idx \<and> idx < 0"
    using that by (simp add: getitem_cases [OF *])
  show "(getitem fed idx = Inl AssertionError) = (int (len fed) \<le> idx)"
    by (simp add: getitem_cases [OF *])
qed

text \<open>The property at the sample directory.\<close>

theorem getitem_negative_witness:
  "HeartDiseaseRaw_init sample_seed sample_rand (5 :: nat) Float32 Int64 False sample_files
     = Inr sample_raw
   \<and> FedHeartDisease_init sample_seed sample_rand (5 :: nat) 0 True False Float32 Int64 False
       sample_files = Inr sample_single
   \<and> getitem sample_raw (- 1) = Inr (sample_X 0 1 0 1, sample_y 1)
   \<and> getitem sample_single (- 2) = Inr (sample_X 0 0 0 1, sample_y 1)
   \<and> getitem sample_raw (- 5) \<noteq> Inl AssertionError"
proof -
  have 1: "HeartDiseaseRaw_init sample_seed sample_rand (5 :: nat) Float32 Int64 False sample_files
     = Inr sample_raw"
    by (rule sample_raw_eval)
  have 2: "FedHeartDisease_init sample_seed sample_rand (5 :: nat) 0 True False Float32 Int64 False
       sample_files = Inr sample_single"
    by (rule sample_single_eval)
  have 3: "len sample_raw = 4" "len sample_single = 2"
    by (simp_all add: len_def sample_raw_def sample_single_def)
  have 4: "features sample_raw ! nat 3 = sample_X 0 1 0 1" "labels sample_raw ! nat 3 = sample_y 1"
    "features sample_single ! nat 0 = sample_X 0 0 0 1" "labels sample_single ! nat 0 = sample_y 1"
    by (simp_all add: sample_raw_def sample_single_def numeral_3_eq_3)
  from getitem_negative [of sample_seed sample_rand "5 :: nat" Float32 Int64 False sample_files
      sample_raw "- 1" 0 True False sample_single]
    getitem_negative [of sample_seed sample_rand "5 :: nat" Float32 Int64 False sample_files
      sample_raw "- 2" 0 True False sample_single]
    getitem_negative [of sample_seed sample_rand "5 :: nat" Float32 Int64 False sample_files
      sample_raw "- 5" 0 True False sample_single]
    1 2 3 4
  show ?thesis by simp
qed

end
